theory Spec2Isabelle
  imports Main
begin

section \<open>Errors, targets and the storage backend\<close>

text \<open>
  Go's \<open>error\<close> values. \<open>Errno\<close> is an error handed back by a collaborator (a
  syscall, the image-mounting engine, an external command); \<open>Wrapf msg e\<close> is
  \<open>fmt.Errorf("msg: %w", e)\<close> and \<open>Errorf msg\<close> is \<open>fmt.Errorf("msg")\<close>. The
  messages keep the constant part of the source's format strings.
\<close>

datatype error = Errno string | Errorf string | Wrapf string error

text \<open>\<open>Target\<close> of files.go, with the fields storage.go reads.\<close>

record Target =
  Name :: string
  Fullname :: string
  Version :: string
  ServiceType :: string

record AtomfsStorage =
  RootDir :: string
  zotPath :: string
  scratchPath :: string

section \<open>The operating system as a state\<close>

text \<open>
  What is mounted where: the engine's read-only mount of an image (OCI directory
  and tag) or an overlay mount with its option string.
\<close>

datatype mount_kind = Atomfs string string | Overlay string

datatype syscall =
    SysMkdirTemp string
  | SysEnsureDir string
  | SysEngineMount string
  | SysEngineUmount string
  | SysMount string string
  | SysUnmount string
  | SysRemove string
  | SysRemoveAll string

text \<open>
  \<open>dirs\<close> are the directories that exist, \<open>mounts\<close> is the kernel's mount
  stack (the newest mount first), \<open>calls\<close> records every state-changing
  request in the order the program issues it. The lines written with
  \<open>log.Warnf\<close> are not part of the state.
\<close>

record world =
  dirs :: "string set"
  mounts :: "(string \<times> mount_kind) list"
  calls :: "syscall list"

text \<open>
  The outcome of every collaborator that can fail during one call: \<open>None\<close> is
  success, \<open>Some e\<close> makes that request fail with the error \<open>Errno e\<close>. The three \<open>rand\<close>
  strings are what \<open>os.MkdirTemp\<close> draws for the three scratch directories.
  \<open>setup_umount_err\<close> and \<open>setup_ensure_err\<close> are the outcomes of the unmount
  and the directory creation that \<open>SetupTarget\<close> and \<open>TearDownTarget\<close> issue
  themselves, \<open>umount_err\<close> and \<open>ensure_err\<close> of those inside \<open>Mount\<close> and the
  cleanup actions.
\<close>

record outcomes =
  ro_rand :: string
  work_rand :: string
  upper_rand :: string
  mkdir_ro_err :: "string option"
  mkdir_work_err :: "string option"
  mkdir_upper_err :: "string option"
  ensure_err :: "string option"
  uidmap_is_host :: bool
  build_err :: "string option"
  molmount_err :: "string option"
  overlay_err :: "string option"
  umount_err :: "string option"
  unmount_err :: "string option"
  ismount_err :: "string option"
  setup_umount_err :: "string option"
  setup_ensure_err :: "string option"

definition record_call :: "syscall \<Rightarrow> world \<Rightarrow> world" where
  "record_call c w = w\<lparr>calls := calls w @ [c]\<rparr>"

definition is_mounted :: "string \<Rightarrow> world \<Rightarrow> bool" where
  "is_mounted p w = (p \<in> fst ` set (mounts w))"

definition mount_count :: "string \<Rightarrow> world \<Rightarrow> nat" where
  "mount_count p w = length (filter (\<lambda>m. fst m = p) (mounts w))"

text \<open>A mount point is a directory that exists.\<close>

definition mounts_exist :: "world \<Rightarrow> bool" where
  "mounts_exist w = (\<forall>m \<in> set (mounts w). fst m \<in> dirs w)"

text \<open>umount(2) detaches the topmost mount of a target and leaves the rest.\<close>

fun drop_top :: "string \<Rightarrow> (string \<times> mount_kind) list \<Rightarrow> (string \<times> mount_kind) list" where
  "drop_top p [] = []"
| "drop_top p (m # ms) = (if fst m = p then ms else m # drop_top p ms)"

subsection \<open>Go's standard library\<close>

text \<open>
  \<open>os.MkdirTemp(dir, pattern)\<close>: a pattern with a path separator is refused;
  the random string replaces the last \<open>*\<close> of the pattern or is appended; an
  empty \<open>dir\<close> is the default temporary directory. The library retries on a
  name that exists and gives up with that error; the model draws once.
\<close>

fun split_last_star :: "string \<Rightarrow> (string \<times> string) option" where
  "split_last_star [] = None"
| "split_last_star (c # cs) =
     (case split_last_star cs of
        Some (p, s) \<Rightarrow> Some (c # p, s)
      | None \<Rightarrow> (if c = CHR ''*'' then Some ([], cs) else None))"

definition joinPath :: "string \<Rightarrow> string \<Rightarrow> string" where
  "joinPath dir name =
     (if dir \<noteq> [] \<and> last dir = CHR ''/'' then dir @ name else dir @ ''/'' @ name)"

definition temp_name :: "string \<Rightarrow> string \<Rightarrow> string \<Rightarrow> string" where
  "temp_name dir pattern rnd =
     joinPath (if dir = [] then ''/tmp'' else dir)
       (case split_last_star pattern of
          Some (p, s) \<Rightarrow> p @ rnd @ s
        | None \<Rightarrow> pattern @ rnd)"

definition os_MkdirTemp ::
  "string option \<Rightarrow> string \<Rightarrow> string \<Rightarrow> string \<Rightarrow> world \<Rightarrow> (error + string) \<times> world" where
  "os_MkdirTemp fault rnd dir pattern w =
     (if CHR ''/'' \<in> set pattern then (Inl (Errno ''pattern contains path separator''), w)
      else
        let name = temp_name dir pattern rnd; w1 = record_call (SysMkdirTemp name) w in
        (case fault of
           Some e \<Rightarrow> (Inl (Errno e), w1)
         | None \<Rightarrow>
             if name \<in> dirs w1 then (Inl (Errno ''file exists''), w1)
             else (Inr name, w1\<lparr>dirs := insert name (dirs w1)\<rparr>)))"

text \<open>
  \<open>os.Remove\<close> and \<open>os.RemoveAll\<close>: a directory that is a mount point cannot be
  removed (EBUSY) and stays. The contents of directories are not part of the
  state, so the two differ only in the request recorded. Every call site of the
  source discards their error, so the model returns the state alone.
\<close>

definition os_Remove :: "string \<Rightarrow> world \<Rightarrow> world" where
  "os_Remove p w =
     (let w1 = record_call (SysRemove p) w in
      if is_mounted p w1 then w1 else w1\<lparr>dirs := dirs w1 - {p}\<rparr>)"

definition os_RemoveAll :: "string \<Rightarrow> world \<Rightarrow> world" where
  "os_RemoveAll p w =
     (let w1 = record_call (SysRemoveAll p) w in
      if is_mounted p w1 then w1 else w1\<lparr>dirs := dirs w1 - {p}\<rparr>)"

text \<open>\<open>unix.Mount\<close> and \<open>unix.Unmount\<close>.\<close>

definition unix_Mount ::
  "string option \<Rightarrow> string \<Rightarrow> string \<Rightarrow> world \<Rightarrow> error option \<times> world" where
  "unix_Mount fault target data w =
     (let w1 = record_call (SysMount target data) w in
      case fault of
        Some e \<Rightarrow> (Some (Errno e), w1)
      | None \<Rightarrow> (None, w1\<lparr>mounts := (target, Overlay data) # mounts w1\<rparr>))"

definition unix_Unmount :: "string option \<Rightarrow> string \<Rightarrow> world \<Rightarrow> error option \<times> world" where
  "unix_Unmount fault target w =
     (let w1 = record_call (SysUnmount target) w in
      case fault of
        Some e \<Rightarrow> (Some (Errno e), w1)
      | None \<Rightarrow>
          if is_mounted target w1 then (None, w1\<lparr>mounts := drop_top target (mounts w1)\<rparr>)
          else (Some (Errno ''invalid argument''), w1))"

text \<open>
  \<open>filepath.Join\<close> on Unix: the elements from the first non-empty one on are
  joined with slashes and the result is cleaned; with no non-empty element the
  result is empty. \<open>filepath.Clean\<close> drops empty and \<open>.\<close> elements, lets \<open>..\<close>
  remove the element before it (at the root it is dropped, at the front of a
  relative path it is kept), and turns an empty result into \<open>.\<close>.
\<close>

fun join_slash :: "string list \<Rightarrow> string" where
  "join_slash [] = []"
| "join_slash [x] = x"
| "join_slash (x # y # zs) = x @ ''/'' @ join_slash (y # zs)"

fun split_slash :: "string \<Rightarrow> string list" where
  "split_slash [] = [[]]"
| "split_slash (c # cs) =
     (if c = CHR ''/'' then [] # split_slash cs
      else (case split_slash cs of r # rs \<Rightarrow> (c # r) # rs | [] \<Rightarrow> [[c]]))"

text \<open>\<open>out\<close> holds the elements written so far, the last one first.\<close>

fun clean_elems :: "bool \<Rightarrow> string list \<Rightarrow> string list \<Rightarrow> string list" where
  "clean_elems rooted out [] = out"
| "clean_elems rooted out (e # es) =
     (if e = [] \<or> e = ''.'' then clean_elems rooted out es
      else if e = ''..'' then
        (if out \<noteq> [] \<and> hd out \<noteq> ''..'' then clean_elems rooted (tl out) es
         else if \<not> rooted then clean_elems rooted (''..'' # out) es
         else clean_elems rooted out es)
      else clean_elems rooted (e # out) es)"

definition Clean :: "string \<Rightarrow> string" where
  "Clean path =
     (if path = [] then ''.''
      else
        let rooted = (hd path = CHR ''/'');
            body = join_slash (rev (clean_elems rooted [] (split_slash path)))
        in if rooted then ''/'' @ body else if body = [] then ''.'' else body)"

definition Join :: "string list \<Rightarrow> string" where
  "Join elems =
     (case dropWhile (\<lambda>e. e = []) elems of
        [] \<Rightarrow> []
      | es \<Rightarrow> Clean (join_slash es))"

subsection \<open>Collaborators of the package\<close>

text \<open>
  Modelled from the spec: \<open>EnsureDir\<close> is defined elsewhere in the package; it
  "ensures the mountpoint exists (creates directories as needed)".
\<close>

definition EnsureDir :: "string option \<Rightarrow> string \<Rightarrow> world \<Rightarrow> error option \<times> world" where
  "EnsureDir fault p w =
     (let w1 = record_call (SysEnsureDir p) w in
      case fault of
        Some e \<Rightarrow> (Some (Errno e), w1)
      | None \<Rightarrow> (None, w1\<lparr>dirs := insert p (dirs w1)\<rparr>))"

text \<open>
  Modelled from the spec: \<open>IsMountpoint\<close> is defined elsewhere in the package; it
  reports whether the path is a mount target, or fails reading the mount table.
\<close>

definition IsMountpoint :: "string option \<Rightarrow> string \<Rightarrow> world \<Rightarrow> error + bool" where
  "IsMountpoint fault p w = (case fault of Some e \<Rightarrow> Inl (Errno e) | None \<Rightarrow> Inr (is_mounted p w))"

text \<open>
  The image-mounting engine (\<open>atomfs\<close>) at its interface: building a molecule
  from the options fails or succeeds without touching the state; mounting a
  molecule either adds one mount at the target or fails and leaves none;
  \<open>atomfs.Umount\<close> detaches the mount at the target or fails and leaves it.
\<close>

record MountOCIOpts =
  OCIDir :: string
  MetadataPath :: string
  Tag :: string
  OptTarget :: string
  AllowMissingVerityData :: bool

definition BuildMoleculeFromOCI :: "string option \<Rightarrow> MountOCIOpts \<Rightarrow> error + MountOCIOpts" where
  "BuildMoleculeFromOCI fault opts = (case fault of Some e \<Rightarrow> Inl (Errno e) | None \<Rightarrow> Inr opts)"

definition mol_Mount ::
  "string option \<Rightarrow> MountOCIOpts \<Rightarrow> string \<Rightarrow> world \<Rightarrow> error option \<times> world" where
  "mol_Mount fault mol dest w =
     (let w1 = record_call (SysEngineMount dest) w in
      case fault of
        Some e \<Rightarrow> (Some (Errno e), w1)
      | None \<Rightarrow> (None, w1\<lparr>mounts := (dest, Atomfs (OCIDir mol) (Tag mol)) # mounts w1\<rparr>))"

definition atomfs_Umount :: "string option \<Rightarrow> string \<Rightarrow> world \<Rightarrow> error option \<times> world" where
  "atomfs_Umount fault dest w =
     (let w1 = record_call (SysEngineUmount dest) w in
      case fault of
        Some e \<Rightarrow> (Some (Errno e), w1)
      | None \<Rightarrow>
          if is_mounted dest w1 then (None, w1\<lparr>mounts := drop_top dest (mounts w1)\<rparr>)
          else (Some (Errno ''not a mountpoint''), w1))"

section \<open>Cleanup actions\<close>

text \<open>
  A Go \<open>func()\<close> value: \<open>nil\<close>, the literal \<open>func() {}\<close>, the closure \<open>Mount\<close>
  builds over its mountpoint, or the closure \<open>MountWriteable\<close> builds over the
  mountpoint, the read-only cleanup, the workdir, the upperdir and the
  read-only directory. Calling \<open>nil\<close> panics.
\<close>

datatype cleanup =
    NilFunc
  | NoOp
  | MountCleanup string
  | WriteableCleanup string cleanup string string string

datatype panic = NilFuncCall | IndexOutOfRange

fun run_cleanup :: "outcomes \<Rightarrow> cleanup \<Rightarrow> world \<Rightarrow> panic + world" where
  "run_cleanup oc NilFunc w = Inl NilFuncCall"
| "run_cleanup oc NoOp w = Inr w"
| "run_cleanup oc (MountCleanup mountpoint) w =
     (case atomfs_Umount (umount_err oc) mountpoint w of
        (Some err, w1) \<Rightarrow> Inr w1
      | (None, w1) \<Rightarrow> Inr w1)"
| "run_cleanup oc (WriteableCleanup mountpoint roCleanup workdir upperdir ropath) w =
     (let (_, w1) = unix_Unmount (unmount_err oc) mountpoint w in
      case run_cleanup oc roCleanup w1 of
        Inl p \<Rightarrow> Inl p
      | Inr w2 \<Rightarrow> Inr (os_Remove ropath (os_RemoveAll upperdir (os_RemoveAll workdir w2))))"

section \<open>AtomfsStorage\<close>

definition metadataPath :: "AtomfsStorage \<Rightarrow> string" where
  "metadataPath a = Join [scratchPath a, ''atomfs'']"

definition Mount ::
  "outcomes \<Rightarrow> AtomfsStorage \<Rightarrow> Target \<Rightarrow> string \<Rightarrow> world \<Rightarrow> cleanup \<times> error option \<times> world" where
  "Mount oc a t mountpoint w =
     (case EnsureDir (ensure_err oc) mountpoint w of
        (Some err, w1) \<Rightarrow> (NoOp, Some (Wrapf ''Failed creating mountpoint'' err), w1)
      | (None, w1) \<Rightarrow>
          let opts = \<lparr>OCIDir = Join [zotPath a, Fullname t],
                      MetadataPath = metadataPath a,
                      Tag = Version t,
                      OptTarget = mountpoint,
                      AllowMissingVerityData = (\<not> uidmap_is_host oc)\<rparr> in
          (case BuildMoleculeFromOCI (build_err oc) opts of
             Inl err \<Rightarrow> (NoOp, Some (Wrapf ''Failed building atomfs molecule'' err), w1)
           | Inr mol \<Rightarrow>
               let cleanup = MountCleanup mountpoint in
               (case mol_Mount (molmount_err oc) mol mountpoint w1 of
                  (Some err, w2) \<Rightarrow> (cleanup, Some (Wrapf ''Failed mounting molecule'' err), w2)
                | (None, w2) \<Rightarrow> (cleanup, None, w2))))"

text \<open>
  The failure paths run \<open>roCleanup\<close>, which is \<open>NoOp\<close> or a \<open>MountCleanup\<close> and so
  never panics; \<open>run_ok\<close> reads the state it leaves.
\<close>

definition run_ok :: "outcomes \<Rightarrow> cleanup \<Rightarrow> world \<Rightarrow> world" where
  "run_ok oc c w = (case run_cleanup oc c w of Inr w1 \<Rightarrow> w1 | Inl _ \<Rightarrow> w)"

definition MountWriteable ::
  "outcomes \<Rightarrow> AtomfsStorage \<Rightarrow> Target \<Rightarrow> string \<Rightarrow> world \<Rightarrow> cleanup \<times> error option \<times> world" where
  "MountWriteable oc a t mountpoint w =
     (case os_MkdirTemp (mkdir_ro_err oc) (ro_rand oc) (scratchPath a)
             (Name t @ ''-scratch-readonly-'') w of
        (Inl err, w1) \<Rightarrow> (NoOp, Some (Wrapf ''Failed creating readonly mountpoint'' err), w1)
      | (Inr ropath, w1) \<Rightarrow>
     (case Mount oc a t ropath w1 of
        (roCleanup, Some err, w2) \<Rightarrow>
          (NoOp, Some (Wrapf ''Failed creating readonly mount'' err), os_Remove ropath w2)
      | (roCleanup, None, w2) \<Rightarrow>
     (case os_MkdirTemp (mkdir_work_err oc) (work_rand oc) (scratchPath a)
             (Name t @ ''-scratch-workdir-'') w2 of
        (Inl err, w3) \<Rightarrow>
          (NoOp, Some (Wrapf ''Failed creating workdir'' err),
           os_Remove ropath (run_ok oc roCleanup w3))
      | (Inr workdir, w3) \<Rightarrow>
     (case os_MkdirTemp (mkdir_upper_err oc) (upper_rand oc) (scratchPath a)
             (Name t @ ''-scratch-upperdir-'') w3 of
        (Inl err, w4) \<Rightarrow>
          (NoOp, Some (Wrapf ''Failed creating upperdir'' err),
           os_RemoveAll workdir (os_Remove ropath (run_ok oc roCleanup w4)))
      | (Inr upperdir, w4) \<Rightarrow>
          let overlayArgs = ''lowerdir='' @ ropath @ '',upperdir='' @ upperdir
                            @ '',workdir='' @ workdir @ '',userxattr'' in
          (case unix_Mount (overlay_err oc) mountpoint overlayArgs w4 of
             (Some err, w5) \<Rightarrow>
               (NilFunc, Some err,
                os_Remove ropath (os_RemoveAll upperdir (os_RemoveAll workdir
                  (run_ok oc roCleanup w5))))
           | (None, w5) \<Rightarrow>
               (WriteableCleanup mountpoint roCleanup workdir upperdir ropath, None, w5))))))"

section \<open>Target lifecycle\<close>

definition TargetMountdir :: "AtomfsStorage \<Rightarrow> Target \<Rightarrow> string" where
  "TargetMountdir a t = Join [scratchPath a, ''roots'', Name t]"

definition SetupTarget ::
  "outcomes \<Rightarrow> AtomfsStorage \<Rightarrow> Target \<Rightarrow> world \<Rightarrow> error option \<times> world" where
  "SetupTarget oc a t w =
     (let mp = Join [scratchPath a, ''roots'', Name t] in
      case IsMountpoint (ismount_err oc) mp w of
        Inl err \<Rightarrow> (Some (Wrapf ''Failed checking whether mounted'' err), w)
      | Inr mounted \<Rightarrow>
     (case (if mounted then atomfs_Umount (setup_umount_err oc) mp w else (None, w)) of
        (Some err, w1) \<Rightarrow> (Some err, w1)
      | (None, w1) \<Rightarrow>
     (case EnsureDir (setup_ensure_err oc) mp w1 of
        (Some err, w2) \<Rightarrow> (Some (Wrapf ''Failed creating mountpoint'' err), w2)
      | (None, w2) \<Rightarrow>
     (case (if ServiceType t = ''container'' then MountWriteable oc a t mp w2
            else Mount oc a t mp w2) of
        (_, Some err, w3) \<Rightarrow> (Some (Wrapf ''Failed mounting'' err), w3)
      | (_, None, w3) \<Rightarrow> (None, w3)))))"

definition TearDownTarget ::
  "outcomes \<Rightarrow> AtomfsStorage \<Rightarrow> string \<Rightarrow> world \<Rightarrow> error option \<times> world" where
  "TearDownTarget oc a name w =
     (let mp = Join [scratchPath a, ''roots'', name] in
      case IsMountpoint (ismount_err oc) mp w of
        Inl err \<Rightarrow> (Some (Wrapf ''Failed checking whether mounted'' err), w)
      | Inr mounted \<Rightarrow>
          if \<not> mounted then (None, w)
          else
            (case atomfs_Umount (setup_umount_err oc) mp w of
               (Some err, w1) \<Rightarrow> (Some (Wrapf ''atomfs umount failed'' err), w1)
             | (None, w1) \<Rightarrow> (None, w1)))"

section \<open>Mount-state introspection\<close>

text \<open>An entry of the mount table, as the mount-table library parses it.\<close>

record mnt =
  Source :: string
  MntTarget :: string
  FSType :: string
  Opts :: "string list"

text \<open>
  What the program is told from outside: the result of an external command
  (output and exit code), of parsing the mount table found at a path, and of
  asking an entry for its overlay directories.
\<close>

record probes =
  RunCommandWithRc :: "string list \<Rightarrow> string \<times> int"
  ParseMounts :: "string \<Rightarrow> error + mnt list"
  GetOverlayDirs :: "mnt \<Rightarrow> error + string list"

text \<open>\<open>filepath.Base\<close> on a Unix path.\<close>

definition Base :: "string \<Rightarrow> string" where
  "Base path =
     (if path = [] then ''.''
      else
        let p = rev (dropWhile (\<lambda>c. c = CHR ''/'') (rev path));
            e = rev (takeWhile (\<lambda>c. c \<noteq> CHR ''/'') (rev p))
        in if e = [] then ''/'' else e)"

text \<open>
  The loop of \<open>getHashFromOverlay\<close>: entries with another target are skipped,
  the first entry with the queried target decides. \<open>dirs[0]\<close> on an empty
  slice is Go's index-out-of-range panic.
\<close>

fun hash_of_first_match ::
  "(mnt \<Rightarrow> error + string list) \<Rightarrow> string \<Rightarrow> mnt list \<Rightarrow> panic + (string \<times> error option)" where
  "hash_of_first_match god mountPoint [] = Inr ('''', None)"
| "hash_of_first_match god mountPoint (m # ms) =
     (if MntTarget m \<noteq> mountPoint then hash_of_first_match god mountPoint ms
      else
        (case god m of
           Inl err \<Rightarrow> Inr ('''', Some (Wrapf ''Failed getting overlay dirs for mount'' err))
         | Inr ds \<Rightarrow>
             (case ds of
                [] \<Rightarrow> Inl IndexOutOfRange
              | firstDir # _ \<Rightarrow> Inr (Base firstDir, None))))"

definition getHashFromOverlay ::
  "probes \<Rightarrow> string \<Rightarrow> string \<Rightarrow> panic + (string \<times> error option)" where
  "getHashFromOverlay pr mountinfo mountPoint =
     (case ParseMounts pr mountinfo of
        Inl err \<Rightarrow> Inr ('''', Some err)
      | Inr ms \<Rightarrow> hash_of_first_match (GetOverlayDirs pr) mountPoint ms)"

text \<open>
  \<open>strings.TrimSpace\<close>: the white space of Unicode is removed from both ends.
  On the bytes of a Go string that is every leading and every trailing UTF-8
  encoding of a white-space code point (the six of ASCII, U+0085, U+00A0,
  U+1680, U+2000 to U+200A, U+2028, U+2029, U+202F, U+205F, U+3000); a byte
  that starts no such encoding ends the trimming. Then \<open>strconv.Atoi\<close> (an
  optional sign, then decimal digits, within 64 bits) and the \<open>%d\<close> of
  \<open>fmt.Sprintf\<close>.
\<close>

definition space_runes :: "string list" where
  "space_runes =
     [[CHR 0x09], [CHR 0x0A], [CHR 0x0B], [CHR 0x0C], [CHR 0x0D], [CHR 0x20],
      [CHR 0xC2, CHR 0x85], [CHR 0xC2, CHR 0xA0],
      [CHR 0xE1, CHR 0x9A, CHR 0x80],
      [CHR 0xE2, CHR 0x80, CHR 0x80], [CHR 0xE2, CHR 0x80, CHR 0x81],
      [CHR 0xE2, CHR 0x80, CHR 0x82], [CHR 0xE2, CHR 0x80, CHR 0x83],
      [CHR 0xE2, CHR 0x80, CHR 0x84], [CHR 0xE2, CHR 0x80, CHR 0x85],
      [CHR 0xE2, CHR 0x80, CHR 0x86], [CHR 0xE2, CHR 0x80, CHR 0x87],
      [CHR 0xE2, CHR 0x80, CHR 0x88], [CHR 0xE2, CHR 0x80, CHR 0x89],
      [CHR 0xE2, CHR 0x80, CHR 0x8A],
      [CHR 0xE2, CHR 0x80, CHR 0xA8], [CHR 0xE2, CHR 0x80, CHR 0xA9],
      [CHR 0xE2, CHR 0x80, CHR 0xAF], [CHR 0xE2, CHR 0x81, CHR 0x9F],
      [CHR 0xE3, CHR 0x80, CHR 0x80]]"

fun strip_runes :: "string list \<Rightarrow> string \<Rightarrow> string" where
  "strip_runes encs [] = []"
| "strip_runes encs (c # cs) =
     (case find (\<lambda>enc. enc \<noteq> [] \<and> take (length enc) (c # cs) = enc) encs of
        None \<Rightarrow> c # cs
      | Some enc \<Rightarrow> strip_runes encs (drop (length enc - 1) cs))"

definition TrimSpace :: "string \<Rightarrow> string" where
  "TrimSpace s =
     rev (strip_runes (map rev space_runes) (rev (strip_runes space_runes s)))"

definition digit_val :: "char \<Rightarrow> nat option" where
  "digit_val c = map_of (zip ''0123456789'' [0 ..< 10]) c"

fun digits_val :: "nat \<Rightarrow> string \<Rightarrow> nat option" where
  "digits_val acc [] = Some acc"
| "digits_val acc (c # cs) =
     (case digit_val c of None \<Rightarrow> None | Some d \<Rightarrow> digits_val (10 * acc + d) cs)"

definition Atoi :: "string \<Rightarrow> error + int" where
  "Atoi s =
     (let (neg, ds) = (case s of
                         c # r \<Rightarrow> if c = CHR ''-'' then (True, r)
                                   else if c = CHR ''+'' then (False, r) else (False, s)
                       | [] \<Rightarrow> (False, s))
      in if ds = [] then Inl (Errno ''invalid syntax'')
         else
           (case digits_val 0 ds of
              None \<Rightarrow> Inl (Errno ''invalid syntax'')
            | Some n \<Rightarrow>
                let v = (if neg then - int n else int n) in
                if v < - (2 ^ 63) \<or> 2 ^ 63 - 1 < v then Inl (Errno ''value out of range'')
                else Inr v))"

fun decimal :: "nat \<Rightarrow> string" where
  "decimal n = (if n < 10 then [''0123456789'' ! n]
                else decimal (n div 10) @ [''0123456789'' ! (n mod 10)])"

definition sprint_d :: "int \<Rightarrow> string" where
  "sprint_d i = (if i < 0 then ''-'' @ decimal (nat (- i)) else decimal (nat i))"

definition MountedByHash ::
  "probes \<Rightarrow> AtomfsStorage \<Rightarrow> Target \<Rightarrow> panic + (string \<times> error option)" where
  "MountedByHash pr a target =
     (if ServiceType target = ''hostfs'' then
        getHashFromOverlay pr ''/proc/self/mountinfo'' (RootDir a)
      else if ServiceType target = ''fs-only'' then
        getHashFromOverlay pr ''/proc/self/mountinfo'' (Join [RootDir a, ''mnt/atom'', Name target])
      else if ServiceType target = ''container'' then
        (let (out, rc) = RunCommandWithRc pr [''lxc-info'', ''-H'', ''-n'', Name target, ''-s''] in
         if rc \<noteq> 0 then Inr ('''', None)
         else if TrimSpace out \<noteq> ''RUNNING'' then Inr ('''', None)
         else
           (let (out2, rc2) = RunCommandWithRc pr [''lxc-info'', ''-H'', ''-n'', Name target, ''-p''] in
            if rc2 \<noteq> 0 then Inr ('''', None)
            else
              (case Atoi (TrimSpace out2) of
                 Inl err \<Rightarrow> Inr ('''', Some (Wrapf ''couldn't get pid'' err))
               | Inr pid \<Rightarrow>
                   getHashFromOverlay pr (''/proc/'' @ sprint_d pid @ ''/mountinfo'') ''/'')))
      else Inr ('''', Some (Errorf ''couldn't determine mountpoint'')))"

text \<open>
  Modelled from the spec: \<open>GetOverlayDirs\<close> belongs to the mount-table library,
  which is not part of the sources. The interface names the overlay options
  (\<open>lowerdir=\<close>, colon-separated for several lower directories, \<open>upperdir=\<close>,
  \<open>workdir=\<close>): an entry that is not an overlay is an error; otherwise the first
  option that starts with \<open>lowerdir=\<close> is split at the colons
  (\<open>strings.Split\<close>, which gives at least one piece).
\<close>

fun split_colon :: "string \<Rightarrow> string list" where
  "split_colon [] = [[]]"
| "split_colon (c # cs) =
     (if c = CHR '':'' then [] # split_colon cs
      else (case split_colon cs of r # rs \<Rightarrow> (c # r) # rs | [] \<Rightarrow> [[c]]))"

fun first_lowerdir :: "string list \<Rightarrow> error + string list" where
  "first_lowerdir [] = Inl (Errno ''no lowerdirs found'')"
| "first_lowerdir (opt # opts) =
     (if take 9 opt = ''lowerdir='' then Inr (split_colon (drop 9 opt))
      else first_lowerdir opts)"

definition lib_GetOverlayDirs :: "mnt \<Rightarrow> error + string list" where
  "lib_GetOverlayDirs m =
     (if FSType m \<noteq> ''overlay'' then Inl (Errno ''not an overlayfs'')
      else first_lowerdir (Opts m))"

section \<open>Example inputs\<close>

text \<open>
  A mount table with the spec's overlay entry at \<open>/mnt/x\<close>, and probes that
  answer the status query and the PID query with given results.
\<close>

definition example_entry :: "string list \<Rightarrow> mnt" where
  "example_entry opts =
     \<lparr>Source = ''overlay'', MntTarget = ''/mnt/x'', FSType = ''overlay'', Opts = opts\<rparr>"

definition example_table :: "mnt list" where
  "example_table =
     [\<lparr>Source = ''proc'', MntTarget = ''/proc'', FSType = ''proc'', Opts = [''rw'']\<rparr>,
      example_entry [''rw'', ''lowerdir=/cache/abc123:/cache/def456'', ''upperdir=/up'',
                     ''workdir=/wk'']]"

definition example_probes :: "string \<times> int \<Rightarrow> string \<times> int \<Rightarrow> mnt list \<Rightarrow> probes" where
  "example_probes status pid table =
     \<lparr>RunCommandWithRc = (\<lambda>args. if last args = ''-s'' then status else pid),
      ParseMounts = (\<lambda>path. Inr table),
      GetOverlayDirs = lib_GetOverlayDirs\<rparr>"


definition example_storage :: AtomfsStorage where
  "example_storage = \<lparr>RootDir = ''/'', zotPath = ''/zot'', scratchPath = ''/scratch''\<rparr>"

definition example_target :: "string \<Rightarrow> Target" where
  "example_target st =
     \<lparr>Name = ''svc1'', Fullname = ''repo/svc1'', Version = ''v1'', ServiceType = st\<rparr>"

text \<open>
  A scratch root with nothing mounted, and a run in which nothing fails; single
  faults are put in by record update.
\<close>

definition example_world :: world where
  "example_world = \<lparr>dirs = {''/scratch''}, mounts = [], calls = []\<rparr>"

definition no_faults :: outcomes where
  "no_faults =
     \<lparr>ro_rand = ''1'', work_rand = ''2'', upper_rand = ''3'',
      mkdir_ro_err = None, mkdir_work_err = None, mkdir_upper_err = None,
      ensure_err = None, uidmap_is_host = True, build_err = None, molmount_err = None,
      overlay_err = None, umount_err = None, unmount_err = None, ismount_err = None,
      setup_umount_err = None, setup_ensure_err = None\<rparr>"

definition mounted_world :: world where
  "mounted_world =
     \<lparr>dirs = {''/scratch'', ''/scratch/roots/svc1''},
      mounts = [(''/scratch/roots/svc1'', Atomfs ''/zot/repo/svc1'' ''v1'')],
      calls = []\<rparr>"

section \<open>Properties of the mount-state introspection\<close>

lemma hash_of_first_match_absent:
  "\<forall>m \<in> set ms. MntTarget m \<noteq> mp \<Longrightarrow> hash_of_first_match god mp ms = Inr ('''', None)"
  by (induction ms) auto

lemma hash_of_first_match_skip:
  "\<forall>x \<in> set pre. MntTarget x \<noteq> mp \<Longrightarrow>
   hash_of_first_match god mp (pre @ rest) = hash_of_first_match god mp rest"
  by (induction pre) auto

lemma getHash_at_first_match:
  "ParseMounts pr mi = Inr (pre @ m # post) \<Longrightarrow> \<forall>x \<in> set pre. MntTarget x \<noteq> mp \<Longrightarrow>
   getHashFromOverlay pr mi mp = hash_of_first_match (GetOverlayDirs pr) mp (m # post)"
  by (simp add: getHashFromOverlay_def hash_of_first_match_skip)

lemma split_colon_nonempty: "split_colon s \<noteq> []"
  by (induction s) (auto split: list.splits)

lemma split_colon_no_colon: "CHR '':'' \<notin> set xs \<Longrightarrow> split_colon xs = [xs]"
  by (induction xs) auto

lemma split_colon_first:
  "CHR '':'' \<notin> set xs \<Longrightarrow> split_colon (xs @ CHR '':'' # ys) = xs # split_colon ys"
  by (induction xs) auto

lemma split_colon_lowers:
  "CHR '':'' \<notin> set xs \<Longrightarrow>
   \<exists>rest. split_colon (xs @ concat (map (\<lambda>d. CHR '':'' # d) lowers)) = xs # rest"
  by (cases lowers) (auto simp: split_colon_no_colon split_colon_first)

lemma first_lowerdir_nonempty: "first_lowerdir opts \<noteq> Inr []"
  by (induction opts) (auto simp: split_colon_nonempty)

lemma first_lowerdir_skip:
  "\<forall>opt \<in> set before. take 9 opt \<noteq> ''lowerdir='' \<Longrightarrow>
   first_lowerdir (before @ opts) = first_lowerdir opts"
  by (induction before) auto

lemma lib_GetOverlayDirs_nonempty: "lib_GetOverlayDirs m \<noteq> Inr []"
  by (simp add: lib_GetOverlayDirs_def first_lowerdir_nonempty)

lemma Base_abc123: "Base ''/cache/abc123'' = ''abc123''"
  by (simp add: Base_def)

text \<open>
  C6. For a mount table whose first entry with the queried target is \<open>m\<close>:
  when \<open>m\<close> has the overlay directories \<open>d # ds\<close>, the hash is the final path
  component (\<open>filepath.Base\<close>) of the first directory \<open>d\<close>, whatever \<open>ds\<close> is;
  and when the directories are read from the options as the library does, an
  overlay entry with \<open>lowerdir=/cache/abc123\<close> followed by any number of further
  colon-separated lower directories has the hash \<open>abc123\<close>.
\<close>

theorem getHash_first_lower:
  assumes "ParseMounts pr mi = Inr (pre @ m # post)"
    and "\<forall>x \<in> set pre. MntTarget x \<noteq> mp"
    and "MntTarget m = mp"
  shows "(\<forall>d ds. GetOverlayDirs pr m = Inr (d # ds) \<longrightarrow>
            getHashFromOverlay pr mi mp = Inr (Base d, None)) \<and>
         (GetOverlayDirs pr = lib_GetOverlayDirs \<longrightarrow> FSType m = ''overlay'' \<longrightarrow>
          (\<forall>opt \<in> set before. take 9 opt \<noteq> ''lowerdir='') \<longrightarrow>
          Opts m = before @
            (''lowerdir=/cache/abc123'' @ concat (map (\<lambda>d. CHR '':'' # d) lowers)) # other \<longrightarrow>
            getHashFromOverlay pr mi mp = Inr (''abc123'', None))"
proof -
  have at_m: "getHashFromOverlay pr mi mp = hash_of_first_match (GetOverlayDirs pr) mp (m # post)"
    using assms(1,2) by (rule getHash_at_first_match)
  have gen: "getHashFromOverlay pr mi mp = Inr (Base d, None)"
    if "GetOverlayDirs pr m = Inr (d # ds)" for d ds
    using at_m assms(3) that by simp
  have ex: "getHashFromOverlay pr mi mp = Inr (''abc123'', None)"
    if g: "GetOverlayDirs pr = lib_GetOverlayDirs" and f: "FSType m = ''overlay''"
      and b: "\<forall>opt \<in> set before. take 9 opt \<noteq> ''lowerdir=''"
      and o: "Opts m = before @
            (''lowerdir=/cache/abc123'' @ concat (map (\<lambda>d. CHR '':'' # d) lowers)) # other"
  proof -
    obtain rest where
      "split_colon (''/cache/abc123'' @ concat (map (\<lambda>d. CHR '':'' # d) lowers))
         = ''/cache/abc123'' # rest"
      using split_colon_lowers [of "''/cache/abc123''" lowers] by auto
    then have "lib_GetOverlayDirs m = Inr (''/cache/abc123'' # rest)"
      using f o first_lowerdir_skip [OF b] by (simp add: lib_GetOverlayDirs_def)
    then show ?thesis using gen [of "''/cache/abc123''" rest] g by (simp add: Base_abc123)
  qed
  show ?thesis using gen ex by blast
qed

theorem getHash_first_lower_witness:
  "getHashFromOverlay (example_probes ('''', 0) ('''', 0) example_table)
     ''/proc/self/mountinfo'' ''/mnt/x'' = Inr (''abc123'', None)"
proof -
  let ?pr = "example_probes ('''', 0) ('''', 0) example_table"
  let ?proc = "\<lparr>Source = ''proc'', MntTarget = ''/proc'', FSType = ''proc'', Opts = [''rw'']\<rparr>"
  let ?m = "example_entry [''rw'', ''lowerdir=/cache/abc123:/cache/def456'', ''upperdir=/up'',
                           ''workdir=/wk'']"
  have 1: "ParseMounts ?pr ''/proc/self/mountinfo'' = Inr ([?proc] @ ?m # [])"
    by (simp add: example_probes_def example_table_def)
  have 2: "\<forall>x \<in> set [?proc]. MntTarget x \<noteq> ''/mnt/x''" by simp
  have 3: "MntTarget ?m = ''/mnt/x''" by (simp add: example_entry_def)
  have 4: "GetOverlayDirs ?pr = lib_GetOverlayDirs" by (simp add: example_probes_def)
  have 5: "FSType ?m = ''overlay''" by (simp add: example_entry_def)
  have 6: "\<forall>opt \<in> set [''rw'']. take 9 opt \<noteq> ''lowerdir=''" by simp
  have 7: "Opts ?m = [''rw''] @
      (''lowerdir=/cache/abc123'' @ concat (map (\<lambda>d. CHR '':'' # d) [''/cache/def456'']))
        # [''upperdir=/up'', ''workdir=/wk'']"
    by (simp add: example_entry_def)
  show ?thesis
    using getHash_first_lower [OF 1 2 3, of "[''rw'']" "[''/cache/def456'']"
        "[''upperdir=/up'', ''workdir=/wk'']"] 4 5 6 7
    by blast
qed

text \<open>
  C7. When the mount table parses and none of its entries has the queried
  path as its target, the lookup returns the empty hash and no error.
\<close>

theorem getHash_absent:
  "ParseMounts pr mi = Inr ms \<Longrightarrow> \<forall>m \<in> set ms. MntTarget m \<noteq> mp \<Longrightarrow>
   getHashFromOverlay pr mi mp = Inr ('''', None)"
  by (simp add: getHashFromOverlay_def hash_of_first_match_absent)

theorem getHash_absent_witness:
  "getHashFromOverlay (example_probes ('''', 0) ('''', 0) example_table)
     ''/proc/self/mountinfo'' ''/mnt/y'' = Inr ('''', None)"
proof -
  have p: "ParseMounts (example_probes ('''', 0) ('''', 0) example_table) ''/proc/self/mountinfo''
             = Inr example_table"
    by (simp add: example_probes_def)
  have a: "\<forall>m \<in> set example_table. MntTarget m \<noteq> ''/mnt/y''"
    by (simp add: example_table_def example_entry_def)
  show ?thesis using getHash_absent [OF p a] by simp
qed

text \<open>
  C8. For a target of service type \<open>container\<close>: when the status command exits
  nonzero, or its trimmed output is not exactly \<open>RUNNING\<close>, \<open>MountedByHash\<close>
  returns the empty hash and no error.
\<close>

theorem MountedByHash_not_running:
  "ServiceType t = ''container'' \<Longrightarrow>
   RunCommandWithRc pr [''lxc-info'', ''-H'', ''-n'', Name t, ''-s''] = (out, rc) \<Longrightarrow>
   rc \<noteq> 0 \<or> TrimSpace out \<noteq> ''RUNNING'' \<Longrightarrow>
   MountedByHash pr a t = Inr ('''', None)"
  by (auto simp: MountedByHash_def)

theorem MountedByHash_not_running_witness:
  "MountedByHash (example_probes (''STOPPED'', 0) ('''', 0) example_table) example_storage
     (example_target ''container'') = Inr ('''', None)"
proof -
  have "TrimSpace ''STOPPED'' \<noteq> ''RUNNING''" by code_simp
  then show ?thesis
    using MountedByHash_not_running [of "example_target ''container''"
        "example_probes (''STOPPED'', 0) ('''', 0) example_table" "''STOPPED''" 0 example_storage]
    by (simp add: example_target_def example_probes_def)
qed

text \<open>
  C10. For a target of service type \<open>container\<close> whose status probe reports
  \<open>RUNNING\<close>: when the PID query exits nonzero the result is the empty hash and
  no error; when it exits zero and the trimmed output is not a decimal number
  the result is the wrapped parse error; when it is a number the mount table of
  that process is consulted.
\<close>

theorem MountedByHash_pid_query:
  assumes "ServiceType t = ''container''"
    and "RunCommandWithRc pr [''lxc-info'', ''-H'', ''-n'', Name t, ''-s''] = (out, 0)"
    and "TrimSpace out = ''RUNNING''"
    and "RunCommandWithRc pr [''lxc-info'', ''-H'', ''-n'', Name t, ''-p''] = (out2, rc2)"
  shows "(rc2 \<noteq> 0 \<longrightarrow> MountedByHash pr a t = Inr ('''', None)) \<and>
         (rc2 = 0 \<longrightarrow> (\<forall>e. Atoi (TrimSpace out2) = Inl e \<longrightarrow>
            MountedByHash pr a t = Inr ('''', Some (Wrapf ''couldn't get pid'' e)))) \<and>
         (rc2 = 0 \<longrightarrow> (\<forall>pid. Atoi (TrimSpace out2) = Inr pid \<longrightarrow>
            MountedByHash pr a t =
              getHashFromOverlay pr (''/proc/'' @ sprint_d pid @ ''/mountinfo'') ''/''))"
  using assms by (auto simp: MountedByHash_def)

theorem MountedByHash_pid_query_witness:
  "MountedByHash (example_probes (''RUNNING'', 0) ('''', 1) example_table) example_storage
     (example_target ''container'') = Inr ('''', None) \<and>
   MountedByHash (example_probes (''RUNNING'', 0) (''12x'', 0) example_table) example_storage
     (example_target ''container'')
     = Inr ('''', Some (Wrapf ''couldn't get pid'' (Errno ''invalid syntax''))) \<and>
   MountedByHash (example_probes (''RUNNING'', 0) (''4321'', 0) example_table) example_storage
     (example_target ''container'')
     = getHashFromOverlay (example_probes (''RUNNING'', 0) (''4321'', 0) example_table)
         ''/proc/4321/mountinfo'' ''/''"
proof -
  have r: "TrimSpace ''RUNNING'' = ''RUNNING''" by code_simp
  have b: "Atoi (TrimSpace ''12x'') = Inl (Errno ''invalid syntax'')"
    by code_simp
  have g: "Atoi (TrimSpace ''4321'') = Inr 4321"
    by code_simp
  have d: "sprint_d 4321 = ''4321''"
    by code_simp
  have 3: "MountedByHash (example_probes (''RUNNING'', 0) (''4321'', 0) example_table) example_storage
     (example_target ''container'')
     = getHashFromOverlay (example_probes (''RUNNING'', 0) (''4321'', 0) example_table)
         ''/proc/4321/mountinfo'' ''/''"
    using r g d MountedByHash_pid_query [of "example_target ''container''"
        "example_probes (''RUNNING'', 0) (''4321'', 0) example_table" "''RUNNING''" "''4321''" 0
        example_storage]
    by (simp add: example_target_def example_probes_def)
  have 1: "MountedByHash (example_probes (''RUNNING'', 0) ('''', 1) example_table) example_storage
     (example_target ''container'') = Inr ('''', None)"
    using r MountedByHash_pid_query [of "example_target ''container''"
        "example_probes (''RUNNING'', 0) ('''', 1) example_table" "''RUNNING''" "''''" 1
        example_storage]
    by (simp add: example_target_def example_probes_def)
  have 2: "MountedByHash (example_probes (''RUNNING'', 0) (''12x'', 0) example_table) example_storage
     (example_target ''container'')
     = Inr ('''', Some (Wrapf ''couldn't get pid'' (Errno ''invalid syntax'')))"
    using r b MountedByHash_pid_query [of "example_target ''container''"
        "example_probes (''RUNNING'', 0) (''12x'', 0) example_table" "''RUNNING''" "''12x''" 0
        example_storage]
    by (simp add: example_target_def example_probes_def)
  show ?thesis using 1 2 3 by simp
qed

lemma hash_of_first_match_lib_returns:
  "\<exists>r. hash_of_first_match lib_GetOverlayDirs mp ms = Inr r"
proof (induction ms)
  case Nil
  show ?case by simp
next
  case (Cons m ms)
  show ?case
  proof (cases "lib_GetOverlayDirs m")
    case (Inl e)
    then show ?thesis using Cons by simp
  next
    case (Inr ds)
    then have "ds \<noteq> []" using lib_GetOverlayDirs_nonempty [of m] by auto
    then show ?thesis using Cons Inr by (cases ds) auto
  qed
qed

lemma first_lowerdir_none:
  "\<forall>opt \<in> set opts. take 9 opt \<noteq> ''lowerdir='' \<Longrightarrow>
   first_lowerdir opts = Inl (Errno ''no lowerdirs found'')"
  by (induction opts) auto

text \<open>
  C9. With the overlay directories extracted as the mount-table library does,
  \<open>getHashFromOverlay\<close> never panics: it returns a hash or an error for every
  mount table and path. Where the first entry with the queried target is \<open>m\<close>,
  the list it indexes is never empty, so \<open>dirs[0]\<close> is in bounds; an extraction
  error is returned wrapped. An overlay entry that names no lower directory at
  all gives the error "no lowerdirs found", and one whose \<open>lowerdir=\<close> option is
  empty gives the one-element list of the empty string and the hash \<open>.\<close>.
\<close>

theorem getHash_in_bounds:
  assumes lib: "GetOverlayDirs pr = lib_GetOverlayDirs"
  shows "(\<exists>r. getHashFromOverlay pr mi mp = Inr r) \<and>
         (\<forall>pre m post.
            ParseMounts pr mi = Inr (pre @ m # post) \<longrightarrow>
            (\<forall>x \<in> set pre. MntTarget x \<noteq> mp) \<longrightarrow> MntTarget m = mp \<longrightarrow>
              GetOverlayDirs pr m \<noteq> Inr [] \<and>
              (\<forall>d ds. GetOverlayDirs pr m = Inr (d # ds) \<longrightarrow>
                 getHashFromOverlay pr mi mp = Inr (Base d, None)) \<and>
              (\<forall>e. GetOverlayDirs pr m = Inl e \<longrightarrow>
                 getHashFromOverlay pr mi mp
                   = Inr ('''', Some (Wrapf ''Failed getting overlay dirs for mount'' e))) \<and>
              (FSType m = ''overlay'' \<longrightarrow>
               (\<forall>opt \<in> set (Opts m). take 9 opt \<noteq> ''lowerdir='') \<longrightarrow>
                 getHashFromOverlay pr mi mp
                   = Inr ('''', Some (Wrapf ''Failed getting overlay dirs for mount''
                                        (Errno ''no lowerdirs found'')))) \<and>
              (FSType m = ''overlay'' \<longrightarrow>
               (\<forall>before other. (\<forall>opt \<in> set before. take 9 opt \<noteq> ''lowerdir='') \<longrightarrow>
                  Opts m = before @ ''lowerdir='' # other \<longrightarrow>
                    getHashFromOverlay pr mi mp = Inr (''.'', None))))"
proof -
  have total: "\<exists>r. getHashFromOverlay pr mi mp = Inr r"
    using lib hash_of_first_match_lib_returns
    by (auto simp: getHashFromOverlay_def split: sum.splits)
  have at_first: "GetOverlayDirs pr m \<noteq> Inr [] \<and>
      (\<forall>d ds. GetOverlayDirs pr m = Inr (d # ds) \<longrightarrow>
         getHashFromOverlay pr mi mp = Inr (Base d, None)) \<and>
      (\<forall>e. GetOverlayDirs pr m = Inl e \<longrightarrow>
         getHashFromOverlay pr mi mp
           = Inr ('''', Some (Wrapf ''Failed getting overlay dirs for mount'' e))) \<and>
      (FSType m = ''overlay'' \<longrightarrow>
       (\<forall>opt \<in> set (Opts m). take 9 opt \<noteq> ''lowerdir='') \<longrightarrow>
         getHashFromOverlay pr mi mp
           = Inr ('''', Some (Wrapf ''Failed getting overlay dirs for mount''
                                (Errno ''no lowerdirs found'')))) \<and>
      (FSType m = ''overlay'' \<longrightarrow>
       (\<forall>before other. (\<forall>opt \<in> set before. take 9 opt \<noteq> ''lowerdir='') \<longrightarrow>
          Opts m = before @ ''lowerdir='' # other \<longrightarrow>
            getHashFromOverlay pr mi mp = Inr (''.'', None)))"
    if p: "ParseMounts pr mi = Inr (pre @ m # post)"
      and n: "\<forall>x \<in> set pre. MntTarget x \<noteq> mp" and t: "MntTarget m = mp"
    for pre m post
  proof -
    have at_m: "getHashFromOverlay pr mi mp
                  = hash_of_first_match (GetOverlayDirs pr) mp (m # post)"
      using p n by (rule getHash_at_first_match)
    have ne: "GetOverlayDirs pr m \<noteq> Inr []"
      using lib lib_GetOverlayDirs_nonempty [of m] by simp
    have ok: "getHashFromOverlay pr mi mp = Inr (Base d, None)"
      if "GetOverlayDirs pr m = Inr (d # ds)" for d ds
      using at_m t that by simp
    have err: "getHashFromOverlay pr mi mp
                 = Inr ('''', Some (Wrapf ''Failed getting overlay dirs for mount'' e))"
      if "GetOverlayDirs pr m = Inl e" for e
      using at_m t that by simp
    have none: "getHashFromOverlay pr mi mp
                  = Inr ('''', Some (Wrapf ''Failed getting overlay dirs for mount''
                                       (Errno ''no lowerdirs found'')))"
      if "FSType m = ''overlay''" "\<forall>opt \<in> set (Opts m). take 9 opt \<noteq> ''lowerdir=''"
      using err [of "Errno ''no lowerdirs found''"] lib that first_lowerdir_none [of "Opts m"]
      by (simp add: lib_GetOverlayDirs_def)
    have dot: "getHashFromOverlay pr mi mp = Inr (''.'', None)"
      if "FSType m = ''overlay''" "\<forall>opt \<in> set before. take 9 opt \<noteq> ''lowerdir=''"
        "Opts m = before @ ''lowerdir='' # other" for before other
    proof -
      have "lib_GetOverlayDirs m = Inr [[]]"
        using that first_lowerdir_skip [OF that(2)] by (simp add: lib_GetOverlayDirs_def)
      then show ?thesis using ok [of "[]" "[]"] lib by (simp add: Base_def)
    qed
    show ?thesis using ne ok err none dot by blast
  qed
  show ?thesis using total at_first by blast
qed

theorem getHash_in_bounds_witness:
  "getHashFromOverlay (example_probes ('''', 0) ('''', 0) [example_entry [''rw'']])
     ''/proc/self/mountinfo'' ''/mnt/x''
     = Inr ('''', Some (Wrapf ''Failed getting overlay dirs for mount''
                          (Errno ''no lowerdirs found''))) \<and>
   getHashFromOverlay
     (example_probes ('''', 0) ('''', 0) [example_entry [''rw'', ''lowerdir='', ''upperdir=/up'']])
     ''/proc/self/mountinfo'' ''/mnt/x'' = Inr (''.'', None)"
proof -
  let ?pr1 = "example_probes ('''', 0) ('''', 0) [example_entry [''rw'']]"
  let ?m2 = "example_entry [''rw'', ''lowerdir='', ''upperdir=/up'']"
  let ?pr2 = "example_probes ('''', 0) ('''', 0) [?m2]"
  have l1: "GetOverlayDirs ?pr1 = lib_GetOverlayDirs" by (simp add: example_probes_def)
  have l2: "GetOverlayDirs ?pr2 = lib_GetOverlayDirs" by (simp add: example_probes_def)
  have p1: "ParseMounts ?pr1 ''/proc/self/mountinfo'' = Inr ([] @ example_entry [''rw''] # [])"
    by (simp add: example_probes_def)
  have p2: "ParseMounts ?pr2 ''/proc/self/mountinfo'' = Inr ([] @ ?m2 # [])"
    by (simp add: example_probes_def)
  have n: "\<forall>x \<in> set []. MntTarget x \<noteq> ''/mnt/x''" by simp
  have t1: "MntTarget (example_entry [''rw'']) = ''/mnt/x''" by (simp add: example_entry_def)
  have t2: "MntTarget ?m2 = ''/mnt/x''" by (simp add: example_entry_def)
  have f1: "FSType (example_entry [''rw'']) = ''overlay''" by (simp add: example_entry_def)
  have f2: "FSType ?m2 = ''overlay''" by (simp add: example_entry_def)
  have o1: "\<forall>opt \<in> set (Opts (example_entry [''rw''])). take 9 opt \<noteq> ''lowerdir=''"
    by (simp add: example_entry_def)
  have b2: "\<forall>opt \<in> set [''rw'']. take 9 opt \<noteq> ''lowerdir=''" by simp
  have o2: "Opts ?m2 = [''rw''] @ ''lowerdir='' # [''upperdir=/up'']"
    by (simp add: example_entry_def)
  have 1: "getHashFromOverlay ?pr1 ''/proc/self/mountinfo'' ''/mnt/x''
     = Inr ('''', Some (Wrapf ''Failed getting overlay dirs for mount''
                          (Errno ''no lowerdirs found'')))"
    using getHash_in_bounds [OF l1, of "''/proc/self/mountinfo''" "''/mnt/x''"] p1 n t1 f1 o1
    by blast
  have 2: "getHashFromOverlay ?pr2 ''/proc/self/mountinfo'' ''/mnt/x'' = Inr (''.'', None)"
    using getHash_in_bounds [OF l2, of "''/proc/self/mountinfo''" "''/mnt/x''"] p2 n t2 f2 b2 o2
    by blast
  show ?thesis using 1 2 by simp
qed

section \<open>Properties of mounting and the target lifecycle\<close>

lemma MkdirTemp_Inr:
  "os_MkdirTemp f r d p w = (Inr n, w') \<Longrightarrow>
   n \<notin> dirs w \<and> dirs w' = insert n (dirs w) \<and> mounts w' = mounts w \<and>
   calls w' = calls w @ [SysMkdirTemp n]"
  by (auto simp: os_MkdirTemp_def record_call_def Let_def split: if_splits option.splits)

lemma MkdirTemp_Inl:
  "os_MkdirTemp f r d p w = (Inl e, w') \<Longrightarrow> dirs w' = dirs w \<and> mounts w' = mounts w"
  by (auto simp: os_MkdirTemp_def record_call_def Let_def split: if_splits option.splits)

lemma Mount_ok:
  "Mount oc a t p w = (c, None, w') \<Longrightarrow>
   c = MountCleanup p \<and> dirs w' = insert p (dirs w) \<and>
   mounts w' = (p, Atomfs (Join [zotPath a, Fullname t]) (Version t)) # mounts w \<and>
   calls w' = calls w @ [SysEnsureDir p, SysEngineMount p]"
  by (auto simp: Mount_def EnsureDir_def BuildMoleculeFromOCI_def mol_Mount_def record_call_def
      Let_def split: option.splits)

lemma Mount_err:
  "Mount oc a t p w = (c, Some e, w') \<Longrightarrow> p \<in> dirs w \<Longrightarrow>
   dirs w' = dirs w \<and> mounts w' = mounts w"
  by (auto simp: Mount_def EnsureDir_def BuildMoleculeFromOCI_def mol_Mount_def record_call_def
      Let_def split: option.splits)

lemma Mount_cleanup_safe:
  "Mount oc a t p w = (c, r, w') \<Longrightarrow> c = NoOp \<or> c = MountCleanup p"
  by (auto simp: Mount_def EnsureDir_def BuildMoleculeFromOCI_def mol_Mount_def record_call_def
      Let_def split: option.splits)

lemma run_ok_total:
  "Mount oc a t p w = (c, r, w') \<Longrightarrow> run_cleanup oc2 c w2 = Inr (run_ok oc2 c w2)"
  using Mount_cleanup_safe [of oc a t p w c r w']
  by (auto simp: run_ok_def split: prod.splits option.splits)

lemma os_Remove_fields:
  "mounts (os_Remove p w) = mounts w"
  "dirs (os_Remove p w) = (if is_mounted p w then dirs w else dirs w - {p})"
  "calls (os_Remove p w) = calls w @ [SysRemove p]"
  by (auto simp: os_Remove_def record_call_def is_mounted_def Let_def)

lemma os_RemoveAll_fields:
  "mounts (os_RemoveAll p w) = mounts w"
  "dirs (os_RemoveAll p w) = (if is_mounted p w then dirs w else dirs w - {p})"
  "calls (os_RemoveAll p w) = calls w @ [SysRemoveAll p]"
  by (auto simp: os_RemoveAll_def record_call_def is_mounted_def Let_def)

lemma drop_top_absent: "p \<notin> fst ` set ms \<Longrightarrow> drop_top p ms = ms"
  by (induction ms) auto

lemma run_ok_MountCleanup:
  "dirs (run_ok oc (MountCleanup p) w) = dirs w"
  "calls (run_ok oc (MountCleanup p) w) = calls w @ [SysEngineUmount p]"
  "mounts (run_ok oc (MountCleanup p) w) =
     (if umount_err oc = None then drop_top p (mounts w) else mounts w)"
  by (auto simp: run_ok_def atomfs_Umount_def record_call_def Let_def is_mounted_def
      drop_top_absent split: option.splits prod.splits)

lemma run_ok_NoOp: "run_ok oc NoOp w = w"
  by (simp add: run_ok_def)

lemma unix_Mount_Some:
  "unix_Mount f mp args w = (Some e, w') \<Longrightarrow> dirs w' = dirs w \<and> mounts w' = mounts w"
  by (auto simp: unix_Mount_def record_call_def Let_def split: option.splits)

lemma unix_Mount_None:
  "unix_Mount f mp args w = (None, w') \<Longrightarrow>
   dirs w' = dirs w \<and> mounts w' = (mp, Overlay args) # mounts w \<and>
   calls w' = calls w @ [SysMount mp args]"
  by (auto simp: unix_Mount_def record_call_def Let_def split: option.splits)

lemma not_mounted_fresh: "mounts_exist w \<Longrightarrow> p \<notin> dirs w \<Longrightarrow> p \<notin> fst ` set (mounts w)"
  by (auto simp: mounts_exist_def)


lemma MW_fail1:
  "os_MkdirTemp (mkdir_ro_err oc) (ro_rand oc) (scratchPath a) (Name t @ ''-scratch-readonly-'') w
     = (Inl err, w1) \<Longrightarrow>
   MountWriteable oc a t mp w = (NoOp, Some (Wrapf ''Failed creating readonly mountpoint'' err), w1)"
  by (simp add: MountWriteable_def)

lemma MW_fail2:
  "os_MkdirTemp (mkdir_ro_err oc) (ro_rand oc) (scratchPath a) (Name t @ ''-scratch-readonly-'') w
     = (Inr ropath, w1) \<Longrightarrow>
   Mount oc a t ropath w1 = (roCleanup, Some err, w2) \<Longrightarrow>
   MountWriteable oc a t mp w =
     (NoOp, Some (Wrapf ''Failed creating readonly mount'' err), os_Remove ropath w2)"
  by (simp add: MountWriteable_def)

lemma MW_fail3:
  "os_MkdirTemp (mkdir_ro_err oc) (ro_rand oc) (scratchPath a) (Name t @ ''-scratch-readonly-'') w
     = (Inr ropath, w1) \<Longrightarrow>
   Mount oc a t ropath w1 = (roCleanup, None, w2) \<Longrightarrow>
   os_MkdirTemp (mkdir_work_err oc) (work_rand oc) (scratchPath a) (Name t @ ''-scratch-workdir-'') w2
     = (Inl err, w3) \<Longrightarrow>
   MountWriteable oc a t mp w =
     (NoOp, Some (Wrapf ''Failed creating workdir'' err), os_Remove ropath (run_ok oc roCleanup w3))"
  by (simp add: MountWriteable_def)

lemma MW_fail4:
  "os_MkdirTemp (mkdir_ro_err oc) (ro_rand oc) (scratchPath a) (Name t @ ''-scratch-readonly-'') w
     = (Inr ropath, w1) \<Longrightarrow>
   Mount oc a t ropath w1 = (roCleanup, None, w2) \<Longrightarrow>
   os_MkdirTemp (mkdir_work_err oc) (work_rand oc) (scratchPath a) (Name t @ ''-scratch-workdir-'') w2
     = (Inr workdir, w3) \<Longrightarrow>
   os_MkdirTemp (mkdir_upper_err oc) (upper_rand oc) (scratchPath a) (Name t @ ''-scratch-upperdir-'') w3
     = (Inl err, w4) \<Longrightarrow>
   MountWriteable oc a t mp w =
     (NoOp, Some (Wrapf ''Failed creating upperdir'' err),
      os_RemoveAll workdir (os_Remove ropath (run_ok oc roCleanup w4)))"
  by (simp add: MountWriteable_def)

lemma MW_fail5:
  "os_MkdirTemp (mkdir_ro_err oc) (ro_rand oc) (scratchPath a) (Name t @ ''-scratch-readonly-'') w
     = (Inr ropath, w1) \<Longrightarrow>
   Mount oc a t ropath w1 = (roCleanup, None, w2) \<Longrightarrow>
   os_MkdirTemp (mkdir_work_err oc) (work_rand oc) (scratchPath a) (Name t @ ''-scratch-workdir-'') w2
     = (Inr workdir, w3) \<Longrightarrow>
   os_MkdirTemp (mkdir_upper_err oc) (upper_rand oc) (scratchPath a) (Name t @ ''-scratch-upperdir-'') w3
     = (Inr upperdir, w4) \<Longrightarrow>
   unix_Mount (overlay_err oc) mp
      (''lowerdir='' @ ropath @ '',upperdir='' @ upperdir @ '',workdir='' @ workdir @ '',userxattr'') w4
     = (Some err, w5) \<Longrightarrow>
   MountWriteable oc a t mp w =
     (NilFunc, Some err,
      os_Remove ropath (os_RemoveAll upperdir (os_RemoveAll workdir (run_ok oc roCleanup w5))))"
  by (simp add: MountWriteable_def)

lemma MW_ok:
  "os_MkdirTemp (mkdir_ro_err oc) (ro_rand oc) (scratchPath a) (Name t @ ''-scratch-readonly-'') w
     = (Inr ropath, w1) \<Longrightarrow>
   Mount oc a t ropath w1 = (roCleanup, None, w2) \<Longrightarrow>
   os_MkdirTemp (mkdir_work_err oc) (work_rand oc) (scratchPath a) (Name t @ ''-scratch-workdir-'') w2
     = (Inr workdir, w3) \<Longrightarrow>
   os_MkdirTemp (mkdir_upper_err oc) (upper_rand oc) (scratchPath a) (Name t @ ''-scratch-upperdir-'') w3
     = (Inr upperdir, w4) \<Longrightarrow>
   unix_Mount (overlay_err oc) mp
      (''lowerdir='' @ ropath @ '',upperdir='' @ upperdir @ '',workdir='' @ workdir @ '',userxattr'') w4
     = (None, w5) \<Longrightarrow>
   MountWriteable oc a t mp w =
     (WriteableCleanup mp roCleanup workdir upperdir ropath, None, w5)"
  by (simp add: MountWriteable_def)

lemma MountWriteable_cases:
  obtains
    (fail1) err w1 where
      "os_MkdirTemp (mkdir_ro_err oc) (ro_rand oc) (scratchPath a) (Name t @ ''-scratch-readonly-'') w
         = (Inl err, w1)"
  | (fail2) ropath w1 roCleanup err w2 where
      "os_MkdirTemp (mkdir_ro_err oc) (ro_rand oc) (scratchPath a) (Name t @ ''-scratch-readonly-'') w
         = (Inr ropath, w1)"
      "Mount oc a t ropath w1 = (roCleanup, Some err, w2)"
  | (fail3) ropath w1 roCleanup w2 err w3 where
      "os_MkdirTemp (mkdir_ro_err oc) (ro_rand oc) (scratchPath a) (Name t @ ''-scratch-readonly-'') w
         = (Inr ropath, w1)"
      "Mount oc a t ropath w1 = (roCleanup, None, w2)"
      "os_MkdirTemp (mkdir_work_err oc) (work_rand oc) (scratchPath a) (Name t @ ''-scratch-workdir-'') w2
         = (Inl err, w3)"
  | (fail4) ropath w1 roCleanup w2 workdir w3 err w4 where
      "os_MkdirTemp (mkdir_ro_err oc) (ro_rand oc) (scratchPath a) (Name t @ ''-scratch-readonly-'') w
         = (Inr ropath, w1)"
      "Mount oc a t ropath w1 = (roCleanup, None, w2)"
      "os_MkdirTemp (mkdir_work_err oc) (work_rand oc) (scratchPath a) (Name t @ ''-scratch-workdir-'') w2
         = (Inr workdir, w3)"
      "os_MkdirTemp (mkdir_upper_err oc) (upper_rand oc) (scratchPath a) (Name t @ ''-scratch-upperdir-'') w3
         = (Inl err, w4)"
  | (fail5) ropath w1 roCleanup w2 workdir w3 upperdir w4 err w5 where
      "os_MkdirTemp (mkdir_ro_err oc) (ro_rand oc) (scratchPath a) (Name t @ ''-scratch-readonly-'') w
         = (Inr ropath, w1)"
      "Mount oc a t ropath w1 = (roCleanup, None, w2)"
      "os_MkdirTemp (mkdir_work_err oc) (work_rand oc) (scratchPath a) (Name t @ ''-scratch-workdir-'') w2
         = (Inr workdir, w3)"
      "os_MkdirTemp (mkdir_upper_err oc) (upper_rand oc) (scratchPath a) (Name t @ ''-scratch-upperdir-'') w3
         = (Inr upperdir, w4)"
      "unix_Mount (overlay_err oc) mp
         (''lowerdir='' @ ropath @ '',upperdir='' @ upperdir @ '',workdir='' @ workdir @ '',userxattr'') w4
         = (Some err, w5)"
  | (ok) ropath w1 roCleanup w2 workdir w3 upperdir w4 w5 where
      "os_MkdirTemp (mkdir_ro_err oc) (ro_rand oc) (scratchPath a) (Name t @ ''-scratch-readonly-'') w
         = (Inr ropath, w1)"
      "Mount oc a t ropath w1 = (roCleanup, None, w2)"
      "os_MkdirTemp (mkdir_work_err oc) (work_rand oc) (scratchPath a) (Name t @ ''-scratch-workdir-'') w2
         = (Inr workdir, w3)"
      "os_MkdirTemp (mkdir_upper_err oc) (upper_rand oc) (scratchPath a) (Name t @ ''-scratch-upperdir-'') w3
         = (Inr upperdir, w4)"
      "unix_Mount (overlay_err oc) mp
         (''lowerdir='' @ ropath @ '',upperdir='' @ upperdir @ '',workdir='' @ workdir @ '',userxattr'') w4
         = (None, w5)"
proof -
  obtain r1 w1 where s1:
    "os_MkdirTemp (mkdir_ro_err oc) (ro_rand oc) (scratchPath a) (Name t @ ''-scratch-readonly-'') w
       = (r1, w1)" by (meson surj_pair)
  show thesis
  proof (cases r1)
    case (Inl err)
    then show thesis using s1 fail1 by simp
  next
    case (Inr ropath)
    obtain roCleanup r2 w2 where s2: "Mount oc a t ropath w1 = (roCleanup, r2, w2)"
      by (meson prod_cases3)
    show thesis
    proof (cases r2)
      case (Some err)
      then show thesis using s1 s2 Inr fail2 by simp
    next
      case None
      obtain r3 w3 where s3:
        "os_MkdirTemp (mkdir_work_err oc) (work_rand oc) (scratchPath a) (Name t @ ''-scratch-workdir-'') w2
           = (r3, w3)" by (meson surj_pair)
      show thesis
      proof (cases r3)
        case (Inl err)
        then show thesis using s1 s2 s3 \<open>r1 = Inr ropath\<close> None fail3 by simp
      next
        case wd: (Inr workdir)
        obtain r4 w4 where s4:
          "os_MkdirTemp (mkdir_upper_err oc) (upper_rand oc) (scratchPath a) (Name t @ ''-scratch-upperdir-'') w3
             = (r4, w4)" by (meson surj_pair)
        show thesis
        proof (cases r4)
          case (Inl err)
          then show thesis using s1 s2 s3 s4 \<open>r1 = Inr ropath\<close> None wd fail4 by simp
        next
          case ud: (Inr upperdir)
          obtain r5 w5 where s5:
            "unix_Mount (overlay_err oc) mp
               (''lowerdir='' @ ropath @ '',upperdir='' @ upperdir @ '',workdir='' @ workdir @ '',userxattr'') w4
               = (r5, w5)" by (meson surj_pair)
          show thesis
          proof (cases r5)
            case (Some err)
            then show thesis using s1 s2 s3 s4 s5 \<open>r1 = Inr ropath\<close> None wd ud fail5 by simp
          next
            case n5: None
            then show thesis using s1 s2 s3 s4 s5 \<open>r1 = Inr ropath\<close> None wd ud ok by simp
          qed
        qed
      qed
    qed
  qed
qed

text \<open>
  C1, as the code has it. In a state where every mount point is an existing
  directory: when \<open>MountWriteable\<close> returns an error and the unmount of the
  read-only base that the unwinding performs does not fail, the directories and
  the mounts are those of the state before the call. (A failure of that
  unmount is only logged; the next theorem shows what is left behind then.)
\<close>

theorem MountWriteable_rollback:
  assumes run: "MountWriteable oc a t mp w = (c, Some e, w')"
    and wf: "mounts_exist w" and um: "umount_err oc = None"
  shows "dirs w' = dirs w \<and> mounts w' = mounts w"
proof (cases rule: MountWriteable_cases [where oc=oc and a=a and t=t and w=w and mp=mp])
  case (fail1 err w1)
  then show ?thesis using run MW_fail1 [OF fail1, of mp] MkdirTemp_Inl [OF fail1] by simp
next
  case (fail2 ropath w1 roCleanup err w2)
  note s1 = MkdirTemp_Inr [OF fail2(1)]
  have s2: "dirs w2 = dirs w1 \<and> mounts w2 = mounts w1"
    using Mount_err [OF fail2(2)] s1 by simp
  have nm: "\<not> is_mounted ropath w2"
    using not_mounted_fresh [OF wf] s1 s2 by (simp add: is_mounted_def)
  show ?thesis using run MW_fail2 [OF fail2, of mp] s1 s2 nm by (auto simp: os_Remove_fields)
next
  case (fail3 ropath w1 roCleanup w2 err w3)
  note s1 = MkdirTemp_Inr [OF fail3(1)]
  note s2 = Mount_ok [OF fail3(2)]
  note s3 = MkdirTemp_Inl [OF fail3(3)]
  have nm: "ropath \<notin> fst ` set (mounts w)" using not_mounted_fresh [OF wf] s1 by simp
  show ?thesis using run MW_fail3 [OF fail3, of mp] s1 s2 s3 nm um
    by (auto simp: os_Remove_fields run_ok_MountCleanup is_mounted_def)
next
  case (fail4 ropath w1 roCleanup w2 workdir w3 err w4)
  note s1 = MkdirTemp_Inr [OF fail4(1)]
  note s2 = Mount_ok [OF fail4(2)]
  note s3 = MkdirTemp_Inr [OF fail4(3)]
  note s4 = MkdirTemp_Inl [OF fail4(4)]
  have nm: "ropath \<notin> fst ` set (mounts w)" using not_mounted_fresh [OF wf] s1 by simp
  have nw: "workdir \<notin> fst ` set (mounts w)" using not_mounted_fresh [OF wf] s1 s2 s3 by simp
  show ?thesis using run MW_fail4 [OF fail4, of mp] s1 s2 s3 s4 nm nw um
    by (auto simp: os_Remove_fields os_RemoveAll_fields run_ok_MountCleanup is_mounted_def)
next
  case (fail5 ropath w1 roCleanup w2 workdir w3 upperdir w4 err w5)
  note s1 = MkdirTemp_Inr [OF fail5(1)]
  note s2 = Mount_ok [OF fail5(2)]
  note s3 = MkdirTemp_Inr [OF fail5(3)]
  note s4 = MkdirTemp_Inr [OF fail5(4)]
  note s5 = unix_Mount_Some [OF fail5(5)]
  have nm: "ropath \<notin> fst ` set (mounts w)" using not_mounted_fresh [OF wf] s1 by simp
  have nw: "workdir \<notin> fst ` set (mounts w)" using not_mounted_fresh [OF wf] s1 s2 s3 by simp
  have nu: "upperdir \<notin> fst ` set (mounts w)" using not_mounted_fresh [OF wf] s1 s2 s3 s4 by simp
  show ?thesis using run MW_fail5 [OF fail5] s1 s2 s3 s4 s5 nm nw nu um
    by (auto simp: os_Remove_fields os_RemoveAll_fields run_ok_MountCleanup is_mounted_def)
next
  case (ok ropath w1 roCleanup w2 workdir w3 upperdir w4 w5)
  then show ?thesis using run MW_ok [OF ok] by simp
qed

lemma unix_Mount_Errno:
  "unix_Mount f mp args w = (Some e, w') \<Longrightarrow> \<exists>msg. f = Some msg \<and> e = Errno msg"
  by (auto simp: unix_Mount_def Let_def split: option.splits)

lemma MountWriteable_error_shape:
  assumes run: "MountWriteable oc a t mp w = (c, Some e, w')"
  shows "(c = NilFunc \<and> (\<exists>msg. overlay_err oc = Some msg \<and> e = Errno msg)) \<or>
   (c = NoOp \<and> (\<exists>msg x. e = Wrapf msg x \<and>
      msg \<in> {''Failed creating readonly mountpoint'', ''Failed creating readonly mount'',
              ''Failed creating workdir'', ''Failed creating upperdir''}))"
proof (cases rule: MountWriteable_cases [where oc=oc and a=a and t=t and w=w and mp=mp])
  case (fail1 err w1)
  show ?thesis using run MW_fail1 [OF fail1, of mp] by auto
next
  case (fail2 ropath w1 roCleanup err w2)
  show ?thesis using run MW_fail2 [OF fail2, of mp] by auto
next
  case (fail3 ropath w1 roCleanup w2 err w3)
  show ?thesis using run MW_fail3 [OF fail3, of mp] by auto
next
  case (fail4 ropath w1 roCleanup w2 workdir w3 err w4)
  show ?thesis using run MW_fail4 [OF fail4, of mp] by auto
next
  case (fail5 ropath w1 roCleanup w2 workdir w3 upperdir w4 err w5)
  show ?thesis using run MW_fail5 [OF fail5] unix_Mount_Errno [OF fail5(5)] by auto
next
  case (ok ropath w1 roCleanup w2 workdir w3 upperdir w4 w5)
  show ?thesis using run MW_ok [OF ok] by auto
qed

text \<open>
  C2. When the first four steps succeed and the overlay mount fails with
  \<open>err\<close>, \<open>MountWriteable\<close> returns \<open>nil\<close> as its cleanup function and \<open>err\<close>
  itself, the unwrapped error of the syscall; calling the returned function
  panics, where the no-op function would return. No run of \<open>MountWriteable\<close>
  returns the error wrapped as "Failed mounting writeable overlay": that
  statement is never reached.
\<close>

theorem MountWriteable_overlay_failure:
  assumes "os_MkdirTemp (mkdir_ro_err oc) (ro_rand oc) (scratchPath a) (Name t @ ''-scratch-readonly-'') w
             = (Inr ropath, w1)"
    and "Mount oc a t ropath w1 = (roCleanup, None, w2)"
    and "os_MkdirTemp (mkdir_work_err oc) (work_rand oc) (scratchPath a) (Name t @ ''-scratch-workdir-'') w2
             = (Inr workdir, w3)"
    and "os_MkdirTemp (mkdir_upper_err oc) (upper_rand oc) (scratchPath a) (Name t @ ''-scratch-upperdir-'') w3
             = (Inr upperdir, w4)"
    and "unix_Mount (overlay_err oc) mp
           (''lowerdir='' @ ropath @ '',upperdir='' @ upperdir @ '',workdir='' @ workdir @ '',userxattr'') w4
             = (Some err, w5)"
  shows "fst (MountWriteable oc a t mp w) = NilFunc \<and>
         fst (snd (MountWriteable oc a t mp w)) = Some err \<and>
         (\<exists>msg. overlay_err oc = Some msg \<and> err = Errno msg) \<and>
         run_cleanup oc2 (fst (MountWriteable oc a t mp w)) w6 = Inl NilFuncCall \<and>
         run_cleanup oc2 NoOp w6 = Inr w6 \<and>
         (\<forall>oc' a' t' mp' w' x. fst (snd (MountWriteable oc' a' t' mp' w'))
            \<noteq> Some (Wrapf ''Failed mounting writeable overlay'' x))"
proof -
  have dead: "fst (snd (MountWriteable oc' a' t' mp' w')) \<noteq> Some (Wrapf ''Failed mounting writeable overlay'' x)"
    for oc' a' t' mp' w' x
  proof
    assume h: "fst (snd (MountWriteable oc' a' t' mp' w')) = Some (Wrapf ''Failed mounting writeable overlay'' x)"
    obtain c w'' where "MountWriteable oc' a' t' mp' w' = (c, Some (Wrapf ''Failed mounting writeable overlay'' x), w'')"
      using h by (cases "MountWriteable oc' a' t' mp' w'") auto
    from MountWriteable_error_shape [OF this] show False by auto
  qed
  show ?thesis
    using MW_fail5 [OF assms] unix_Mount_Errno [OF assms(5)] dead by simp
qed

lemma MountWriteable_ok_effect:
  assumes "MountWriteable oc a t mp w = (c, None, w')"
  shows "\<exists>ropath workdir upperdir args.
           c = WriteableCleanup mp (MountCleanup ropath) workdir upperdir ropath \<and>
           ropath \<notin> dirs w \<and> workdir \<notin> dirs w \<and> upperdir \<notin> dirs w \<and>
           dirs w' = dirs w \<union> {ropath, workdir, upperdir} \<and>
           mounts w' = (mp, Overlay args)
                       # (ropath, Atomfs (Join [zotPath a, Fullname t]) (Version t)) # mounts w \<and>
           calls w' = calls w @ [SysMkdirTemp ropath, SysEnsureDir ropath, SysEngineMount ropath,
                                 SysMkdirTemp workdir, SysMkdirTemp upperdir, SysMount mp args]"
proof (cases rule: MountWriteable_cases [where oc=oc and a=a and t=t and w=w and mp=mp])
  case (fail1 err w1)
  then show ?thesis using assms MW_fail1 [OF fail1, of mp] by simp
next
  case (fail2 ropath w1 roCleanup err w2)
  then show ?thesis using assms MW_fail2 [OF fail2, of mp] by simp
next
  case (fail3 ropath w1 roCleanup w2 err w3)
  then show ?thesis using assms MW_fail3 [OF fail3, of mp] by simp
next
  case (fail4 ropath w1 roCleanup w2 workdir w3 err w4)
  then show ?thesis using assms MW_fail4 [OF fail4, of mp] by simp
next
  case (fail5 ropath w1 roCleanup w2 workdir w3 upperdir w4 err w5)
  then show ?thesis using assms MW_fail5 [OF fail5] by simp
next
  case (ok ropath w1 roCleanup w2 workdir w3 upperdir w4 w5)
  note s1 = MkdirTemp_Inr [OF ok(1)]
  note s2 = Mount_ok [OF ok(2)]
  note s3 = MkdirTemp_Inr [OF ok(3)]
  note s4 = MkdirTemp_Inr [OF ok(4)]
  note s5 = unix_Mount_None [OF ok(5)]
  show ?thesis using assms MW_ok [OF ok] s1 s2 s3 s4 s5 by auto
qed






lemma atomfs_Umount_None:
  "atomfs_Umount f p w = (None, w') \<Longrightarrow>
   is_mounted p w \<and> mounts w' = drop_top p (mounts w) \<and> dirs w' = dirs w \<and>
   calls w' = calls w @ [SysEngineUmount p]"
  by (auto simp: atomfs_Umount_def record_call_def Let_def is_mounted_def
      split: option.splits if_splits)

lemma atomfs_Umount_Some:
  "atomfs_Umount f p w = (Some e, w') \<Longrightarrow> mounts w' = mounts w \<and> dirs w' = dirs w"
  by (auto simp: atomfs_Umount_def record_call_def Let_def is_mounted_def
      split: option.splits if_splits)

lemma EnsureDir_None:
  "EnsureDir f p w = (None, w') \<Longrightarrow>
   dirs w' = insert p (dirs w) \<and> mounts w' = mounts w \<and> calls w' = calls w @ [SysEnsureDir p]"
  by (auto simp: EnsureDir_def record_call_def Let_def split: option.splits)

lemma count_drop_top:
  "p \<in> fst ` set ms \<Longrightarrow>
   Suc (length (filter (\<lambda>m. fst m = p) (drop_top p ms))) = length (filter (\<lambda>m. fst m = p) ms)"
  by (induction ms) auto

lemma count_pos_iff: "0 < mount_count p w \<longleftrightarrow> is_mounted p w"
  by (auto simp: mount_count_def is_mounted_def filter_empty_conv)

lemma SetupTarget_ok_effect:
  assumes run: "SetupTarget oc a t w = (None, w')"
  shows "mount_count (TargetMountdir a t) w' =
           (if is_mounted (TargetMountdir a t) w then mount_count (TargetMountdir a t) w else 1) \<and>
         (is_mounted (TargetMountdir a t) w \<longrightarrow>
            (\<exists>rest. calls w' = calls w @ SysEngineUmount (TargetMountdir a t)
                                     # SysEnsureDir (TargetMountdir a t) # rest))"
proof -
  let ?mp = "TargetMountdir a t"
  have mp: "Join [scratchPath a, ''roots'', Name t] = ?mp" by (simp add: TargetMountdir_def)
  obtain w1 where u: "(if is_mounted ?mp w then atomfs_Umount (setup_umount_err oc) ?mp w else (None, w))
       = (None, w1)"
    using run unfolding SetupTarget_def mp Let_def IsMountpoint_def
    by (auto split: option.splits prod.splits sum.splits if_splits)
  obtain w2 where e: "EnsureDir (setup_ensure_err oc) ?mp w1 = (None, w2)"
    using run u unfolding SetupTarget_def mp Let_def IsMountpoint_def
    by (auto split: option.splits prod.splits sum.splits if_splits)
  obtain c where m: "(if ServiceType t = ''container'' then MountWriteable oc a t ?mp w2
                      else Mount oc a t ?mp w2) = (c, None, w')"
    using run u e unfolding SetupTarget_def mp Let_def IsMountpoint_def
    by (auto split: option.splits prod.splits sum.splits if_splits)
  have m1: "mounts w1 = (if is_mounted ?mp w then drop_top ?mp (mounts w) else mounts w)"
    and c1: "calls w1 = (if is_mounted ?mp w then calls w @ [SysEngineUmount ?mp] else calls w)"
    using u atomfs_Umount_None [of "setup_umount_err oc" ?mp w w1] by (auto split: if_splits)
  note s2 = EnsureDir_None [OF e]
  have cnt1: "Suc (length (filter (\<lambda>m. fst m = ?mp) (mounts w1))) =
               (if is_mounted ?mp w then mount_count ?mp w else 1)"
  proof (cases "is_mounted ?mp w")
    case True
    then show ?thesis using m1 count_drop_top [of ?mp "mounts w"]
      by (simp add: mount_count_def is_mounted_def)
  next
    case False
    then have "filter (\<lambda>m. fst m = ?mp) (mounts w) = []"
      by (force simp: is_mounted_def filter_empty_conv)
    then show ?thesis using m1 False by simp
  qed
  have new: "length (filter (\<lambda>m. fst m = ?mp) (mounts w')) =
               Suc (length (filter (\<lambda>m. fst m = ?mp) (mounts w2))) \<and>
             (\<exists>rest. calls w' = calls w2 @ rest)"
  proof (cases "ServiceType t = ''container''")
    case True
    then have "MountWriteable oc a t ?mp w2 = (c, None, w')" using m by simp
    from MountWriteable_ok_effect [OF this] obtain ropath args rest where
      "ropath \<notin> dirs w2" and
      "mounts w' = (?mp, Overlay args)
                       # (ropath, Atomfs (Join [zotPath a, Fullname t]) (Version t)) # mounts w2"
      and "calls w' = calls w2 @ rest"
      by blast
    moreover have "?mp \<in> dirs w2" using s2 by simp
    ultimately show ?thesis by auto
  next
    case False
    then have "Mount oc a t ?mp w2 = (c, None, w')" using m by simp
    from Mount_ok [OF this] show ?thesis by auto
  qed
  show ?thesis using new cnt1 s2 c1 by (auto simp: mount_count_def)
qed

text \<open>
  C4. When two successive calls of \<open>SetupTarget\<close> for the same target succeed,
  the second call begins by unmounting the mountdir, then ensures the directory
  and mounts afresh, and leaves as many mounts at the mountdir as it found: it
  replaces the mount and does not stack one on it. When the mountdir carried
  at most one mount before the first call, it carries exactly one after the
  first and exactly one after the second.
\<close>

theorem SetupTarget_replaces:
  assumes first: "SetupTarget oc1 a t w = (None, w1)"
    and second: "SetupTarget oc2 a t w1 = (None, w2)"
  shows "mount_count (TargetMountdir a t) w2 = mount_count (TargetMountdir a t) w1 \<and>
         (\<exists>rest. calls w2 = calls w1 @ SysEngineUmount (TargetMountdir a t)
                                      # SysEnsureDir (TargetMountdir a t) # rest) \<and>
         (mount_count (TargetMountdir a t) w \<le> 1 \<longrightarrow>
            mount_count (TargetMountdir a t) w1 = 1 \<and> mount_count (TargetMountdir a t) w2 = 1)"
proof -
  let ?mp = "TargetMountdir a t"
  note e1 = SetupTarget_ok_effect [OF first]
  note e2 = SetupTarget_ok_effect [OF second]
  have pos1: "0 < mount_count ?mp w1"
    using e1 count_pos_iff [of ?mp w] by (auto split: if_splits)
  then have mounted1: "is_mounted ?mp w1" by (simp add: count_pos_iff)
  have same: "mount_count ?mp w2 = mount_count ?mp w1" using e2 mounted1 by simp
  have one: "mount_count ?mp w1 = 1" if "mount_count ?mp w \<le> 1"
    using e1 that count_pos_iff [of ?mp w] by (auto split: if_splits)
  show ?thesis using same e2 mounted1 one by auto
qed

lemma TearDownTarget_unmounted:
  "ismount_err oc = None \<Longrightarrow> \<not> is_mounted (Join [scratchPath a, ''roots'', name]) w \<Longrightarrow>
   TearDownTarget oc a name w = (None, w)"
  by (simp add: TearDownTarget_def IsMountpoint_def)

lemma TearDownTarget_fold:
  "\<forall>oc \<in> set ocs. ismount_err oc = None \<Longrightarrow>
   \<not> is_mounted (Join [scratchPath a, ''roots'', name]) w \<Longrightarrow>
   fold (\<lambda>oc s. snd (TearDownTarget oc a name s)) ocs w = w"
  by (induction ocs) (simp_all add: TearDownTarget_unmounted)

text \<open>
  C5. While the mountdir of \<open>name\<close> is not mounted (and the mount check itself
  succeeds), \<open>TearDownTarget\<close> returns no error and leaves the state exactly as
  it was, for any number of repeated calls. When the mountdir is mounted and
  the unmount fails with \<open>e\<close>, the call returns that failure, wrapped, and the
  mount is still there.
\<close>

theorem TearDownTarget_idempotent:
  "((\<forall>oc \<in> set ocs. ismount_err oc = None) \<longrightarrow>
     \<not> is_mounted (Join [scratchPath a, ''roots'', name]) w \<longrightarrow>
       (\<forall>oc \<in> set ocs. TearDownTarget oc a name w = (None, w)) \<and>
       fold (\<lambda>oc s. snd (TearDownTarget oc a name s)) ocs w = w) \<and>
   (ismount_err oc = None \<longrightarrow> is_mounted (Join [scratchPath a, ''roots'', name]) w \<longrightarrow>
     setup_umount_err oc = Some e \<longrightarrow>
       fst (TearDownTarget oc a name w) = Some (Wrapf ''atomfs umount failed'' (Errno e)) \<and>
       mounts (snd (TearDownTarget oc a name w)) = mounts w \<and>
       dirs (snd (TearDownTarget oc a name w)) = dirs w)"
proof -
  have fails: "fst (TearDownTarget oc a name w) = Some (Wrapf ''atomfs umount failed'' (Errno e)) \<and>
       mounts (snd (TearDownTarget oc a name w)) = mounts w \<and>
       dirs (snd (TearDownTarget oc a name w)) = dirs w"
    if "ismount_err oc = None" "is_mounted (Join [scratchPath a, ''roots'', name]) w"
      "setup_umount_err oc = Some e"
    using that
    by (simp add: TearDownTarget_def IsMountpoint_def atomfs_Umount_def record_call_def Let_def)
  show ?thesis using fails TearDownTarget_unmounted TearDownTarget_fold by blast
qed

text \<open>The paths of the examples, and the cleaning and trimming on a few inputs.\<close>

lemma example_joins:
  "Join [''/scratch'', ''roots'', ''svc1''] = ''/scratch/roots/svc1''"
  "Join [''/zot'', ''repo/svc1''] = ''/zot/repo/svc1''"
  "Join [''/scratch'', ''atomfs''] = ''/scratch/atomfs''"
  "Join [''/'', ''mnt/atom'', ''svc1''] = ''/mnt/atom/svc1''"
  by code_simp+

lemma Join_cleans:
  "Join [''/scratch/'', ''roots'', ''svc1''] = ''/scratch/roots/svc1''"
  "Join [''/scratch'', ''roots'', ''../x''] = ''/scratch/x''"
  "Join [''/scratch'', ''roots'', ''.''] = ''/scratch/roots''"
  "Join ['''', ''roots'', '''', ''svc1''] = ''roots/svc1''"
  "Join ['''', ''''] = ''''"
  by code_simp+

lemma TrimSpace_unicode:
  "TrimSpace ([CHR 0xC2, CHR 0xA0] @ ''RUNNING'' @ [CHR 0x0A]) = ''RUNNING''"
  "TrimSpace ('' RUNNING'' @ [CHR 0xE2, CHR 0x80, CHR 0x83, CHR 0x20]) = ''RUNNING''"
  "TrimSpace ([CHR 0xA0] @ ''RUNNING'') = [CHR 0xA0] @ ''RUNNING''"
  "TrimSpace '' a b '' = ''a b''"
  by code_simp+

text \<open>Unfolding the example inputs and the primitives, for evaluation.\<close>

lemmas example_defs = example_storage_def example_target_def example_world_def no_faults_def
  mounted_world_def

lemmas prim_defs = os_MkdirTemp_def temp_name_def joinPath_def record_call_def Let_def
  Mount_def EnsureDir_def BuildMoleculeFromOCI_def mol_Mount_def metadataPath_def example_joins
  unix_Mount_def unix_Unmount_def atomfs_Umount_def os_Remove_def os_RemoveAll_def
  is_mounted_def run_ok_def

text \<open>
  C1 as stated fails: when the creation of the workdir fails and the unmount
  issued by \<open>roCleanup\<close> fails as well, the error is returned while the
  read-only mount and its scratch directory are still there.
\<close>

theorem MountWriteable_unwind_fails:
  "fst (snd (MountWriteable (no_faults\<lparr>mkdir_work_err := Some ''ENOSPC'', umount_err := Some ''EBUSY''\<rparr>)
      example_storage (example_target ''container'') ''/scratch/roots/svc1'' example_world))
     = Some (Wrapf ''Failed creating workdir'' (Errno ''ENOSPC'')) \<and>
   mounts (snd (snd (MountWriteable (no_faults\<lparr>mkdir_work_err := Some ''ENOSPC'', umount_err := Some ''EBUSY''\<rparr>)
      example_storage (example_target ''container'') ''/scratch/roots/svc1'' example_world)))
     = [(''/scratch/svc1-scratch-readonly-1'', Atomfs ''/zot/repo/svc1'' ''v1'')] \<and>
   ''/scratch/svc1-scratch-readonly-1'' \<in> dirs (snd (snd (MountWriteable (no_faults\<lparr>mkdir_work_err := Some ''ENOSPC'', umount_err := Some ''EBUSY''\<rparr>)
      example_storage (example_target ''container'') ''/scratch/roots/svc1'' example_world))) \<and>
   mounts example_world = [] \<and> ''/scratch/svc1-scratch-readonly-1'' \<notin> dirs example_world"
  by (simp add: MountWriteable_def example_defs prim_defs)


theorem MountWriteable_rollback_witness:
  "fst (snd (MountWriteable (no_faults\<lparr>mkdir_work_err := Some ''ENOSPC''\<rparr>)
      example_storage (example_target ''container'') ''/scratch/roots/svc1'' example_world))
     = Some (Wrapf ''Failed creating workdir'' (Errno ''ENOSPC'')) \<and>
   dirs (snd (snd (MountWriteable (no_faults\<lparr>mkdir_work_err := Some ''ENOSPC''\<rparr>)
      example_storage (example_target ''container'') ''/scratch/roots/svc1'' example_world)))
     = dirs example_world \<and>
   mounts (snd (snd (MountWriteable (no_faults\<lparr>mkdir_work_err := Some ''ENOSPC''\<rparr>)
      example_storage (example_target ''container'') ''/scratch/roots/svc1'' example_world)))
     = mounts example_world"
proof -
  let ?oc = "no_faults\<lparr>mkdir_work_err := Some ''ENOSPC''\<rparr>"
  let ?R = "MountWriteable ?oc example_storage (example_target ''container'')
              ''/scratch/roots/svc1'' example_world"
  have run: "?R = (fst ?R, Some (Wrapf ''Failed creating workdir'' (Errno ''ENOSPC'')), snd (snd ?R))"
    by (simp add: MountWriteable_def example_defs prim_defs)
  have wf: "mounts_exist example_world" by (simp add: mounts_exist_def example_world_def)
  have um: "umount_err ?oc = None" by (simp add: no_faults_def)
  show ?thesis using MountWriteable_rollback [OF run wf um] run by (metis fst_conv snd_conv)
qed

theorem MountWriteable_overlay_failure_witness:
  "fst (MountWriteable (no_faults\<lparr>overlay_err := Some ''EINVAL''\<rparr>)
      example_storage (example_target ''container'') ''/scratch/roots/svc1'' example_world) = NilFunc \<and>
   fst (snd (MountWriteable (no_faults\<lparr>overlay_err := Some ''EINVAL''\<rparr>)
      example_storage (example_target ''container'') ''/scratch/roots/svc1'' example_world))
     = Some (Errno ''EINVAL'')"
proof -
  let ?oc = "no_faults\<lparr>overlay_err := Some ''EINVAL''\<rparr>"
  let ?a = example_storage
  let ?t = "example_target ''container''"
  let ?ro = "''/scratch/svc1-scratch-readonly-1''"
  let ?wd = "''/scratch/svc1-scratch-workdir-2''"
  let ?ud = "''/scratch/svc1-scratch-upperdir-3''"
  let ?w1 = "snd (os_MkdirTemp (mkdir_ro_err ?oc) (ro_rand ?oc) (scratchPath ?a)
                    (Name ?t @ ''-scratch-readonly-'') example_world)"
  let ?w2 = "snd (snd (Mount ?oc ?a ?t ?ro ?w1))"
  let ?w3 = "snd (os_MkdirTemp (mkdir_work_err ?oc) (work_rand ?oc) (scratchPath ?a)
                    (Name ?t @ ''-scratch-workdir-'') ?w2)"
  let ?w4 = "snd (os_MkdirTemp (mkdir_upper_err ?oc) (upper_rand ?oc) (scratchPath ?a)
                    (Name ?t @ ''-scratch-upperdir-'') ?w3)"
  let ?args = "''lowerdir='' @ ?ro @ '',upperdir='' @ ?ud @ '',workdir='' @ ?wd @ '',userxattr''"
  let ?w5 = "snd (unix_Mount (overlay_err ?oc) ''/scratch/roots/svc1'' ?args ?w4)"
  have 1: "os_MkdirTemp (mkdir_ro_err ?oc) (ro_rand ?oc) (scratchPath ?a)
             (Name ?t @ ''-scratch-readonly-'') example_world = (Inr ?ro, ?w1)"
    by (simp add: example_defs prim_defs)
  have 2: "Mount ?oc ?a ?t ?ro ?w1 = (MountCleanup ?ro, None, ?w2)"
    by (simp add: example_defs prim_defs)
  have 3: "os_MkdirTemp (mkdir_work_err ?oc) (work_rand ?oc) (scratchPath ?a)
             (Name ?t @ ''-scratch-workdir-'') ?w2 = (Inr ?wd, ?w3)"
    by (simp add: example_defs prim_defs)
  have 4: "os_MkdirTemp (mkdir_upper_err ?oc) (upper_rand ?oc) (scratchPath ?a)
             (Name ?t @ ''-scratch-upperdir-'') ?w3 = (Inr ?ud, ?w4)"
    by (simp add: example_defs prim_defs)
  have 5: "unix_Mount (overlay_err ?oc) ''/scratch/roots/svc1'' ?args ?w4 = (Some (Errno ''EINVAL''), ?w5)"
    by (simp add: example_defs prim_defs)
  show ?thesis using MountWriteable_overlay_failure [OF 1 2 3 4 5] by simp
qed


theorem SetupTarget_replaces_witness:
  "mount_count (TargetMountdir example_storage (example_target ''container''))
     (snd (SetupTarget (no_faults\<lparr>ro_rand := ''4'', work_rand := ''5'', upper_rand := ''6''\<rparr>)
             example_storage (example_target ''container'')
             (snd (SetupTarget no_faults example_storage (example_target ''container'')
                     example_world)))) = 1"
proof -
  let ?t = "example_target ''container''"
  let ?oc2 = "no_faults\<lparr>ro_rand := ''4'', work_rand := ''5'', upper_rand := ''6''\<rparr>"
  let ?w1 = "snd (SetupTarget no_faults example_storage ?t example_world)"
  let ?w2 = "snd (SetupTarget ?oc2 example_storage ?t ?w1)"
  have 1: "SetupTarget no_faults example_storage ?t example_world = (None, ?w1)"
    by (simp add: SetupTarget_def IsMountpoint_def MountWriteable_def example_defs prim_defs)
  have 2: "SetupTarget ?oc2 example_storage ?t ?w1 = (None, ?w2)"
    by (simp add: SetupTarget_def IsMountpoint_def MountWriteable_def example_defs prim_defs)
  have 0: "mount_count (TargetMountdir example_storage ?t) example_world \<le> 1"
    by (simp add: mount_count_def example_world_def)
  show ?thesis using SetupTarget_replaces [OF 1 2] 0 by blast
qed

theorem TearDownTarget_idempotent_witness:
  "fold (\<lambda>oc s. snd (TearDownTarget oc example_storage ''svc1'' s)) [no_faults, no_faults]
     example_world = example_world \<and>
   fst (TearDownTarget (no_faults\<lparr>setup_umount_err := Some ''EBUSY''\<rparr>) example_storage ''svc1''
          mounted_world) = Some (Wrapf ''atomfs umount failed'' (Errno ''EBUSY'')) \<and>
   mounts (snd (TearDownTarget (no_faults\<lparr>setup_umount_err := Some ''EBUSY''\<rparr>) example_storage
          ''svc1'' mounted_world)) = mounts mounted_world"
proof -
  let ?oc = "no_faults\<lparr>setup_umount_err := Some ''EBUSY''\<rparr>"
  have a: "\<forall>oc \<in> set [no_faults, no_faults]. ismount_err oc = None" by (simp add: no_faults_def)
  have b: "\<not> is_mounted (Join [scratchPath example_storage, ''roots'', ''svc1'']) example_world"
    by (simp add: is_mounted_def example_world_def)
  have c: "ismount_err ?oc = None" "setup_umount_err ?oc = Some ''EBUSY''"
    by (simp_all add: no_faults_def)
  have d: "is_mounted (Join [scratchPath example_storage, ''roots'', ''svc1'']) mounted_world"
    by (simp add: is_mounted_def mounted_world_def example_storage_def example_joins)
  show ?thesis
    using TearDownTarget_idempotent [of "[no_faults, no_faults]" example_storage "''svc1''"
        example_world] a b
      TearDownTarget_idempotent [of "[]" example_storage "''svc1''" mounted_world ?oc "''EBUSY''"] c d
    by blast
qed

end
